theory Spec2Isabelle
  imports Main "HOL-Library.Char_ord" "HOL-Library.List_Lexorder" "HOL-Library.Sublist"
begin

section \<open>Python strings\<close>

text \<open>
  A Python \<open>str\<close> is modelled as a \<open>string\<close> whose characters are the code points
  below 256. On that range the pattern class \<open>\d\<close> is the ten ASCII digits, and
  \<open>str.isspace\<close> holds for the code points 9 to 13, 28 to 32, 133 and 160.
\<close>

abbreviation sq :: char where "sq \<equiv> CHR 0x27"
abbreviation dq :: char where "dq \<equiv> CHR 0x22"
abbreviation backslash :: char where "backslash \<equiv> CHR 0x5C"
abbreviation newline :: char where "newline \<equiv> CHR 0x0A"

definition is_digit :: "char \<Rightarrow> bool" where
  "is_digit c = (c \<in> set ''0123456789'')"

definition isspace :: "char \<Rightarrow> bool" where
  "isspace c = (let n = (of_char c :: nat) in
     (9 \<le> n \<and> n \<le> 13) \<or> (28 \<le> n \<and> n \<le> 32) \<or> n = 133 \<or> n = 160)"

text \<open>\<open>s.strip()\<close>\<close>

definition strip :: "string \<Rightarrow> string" where
  "strip s = rev (dropWhile isspace (rev (dropWhile isspace s)))"

text \<open>\<open>s.split(sep)\<close> for a separator of one character: the result is never empty.\<close>

fun split_on :: "char \<Rightarrow> string \<Rightarrow> string list" where
  "split_on sep [] = [[]]"
| "split_on sep (c # cs) =
     (if c = sep then [] # split_on sep cs
      else (let r = split_on sep cs in (c # hd r) # tl r))"

text \<open>\<open>sep.join(xs)\<close>\<close>

fun join :: "string \<Rightarrow> string list \<Rightarrow> string" where
  "join sep [] = []"
| "join sep [x] = x"
| "join sep (x # y # ys) = x @ sep @ join sep (y # ys)"

text \<open>\<open>str(n)\<close> for an \<open>int\<close>, which is what an f-string field \<open>{n}\<close> inserts.\<close>

definition digit_char :: "nat \<Rightarrow> char" where
  "digit_char d = ''0123456789'' ! (d mod 10)"

function str_nat :: "nat \<Rightarrow> string" where
  "str_nat n = (if n < 10 then [digit_char n] else str_nat (n div 10) @ [digit_char (n mod 10)])"
  by pat_completeness auto
termination
  by (relation "measure id") auto

declare str_nat.simps [simp del]

definition str_int :: "int \<Rightarrow> string" where
  "str_int i = (if i < 0 then CHR ''-'' # str_nat (nat (- i)) else str_nat (nat i))"

text \<open>
  \<open>repr(s)\<close> for a \<open>str\<close>, and \<open>str(xs)\<close> for a list of them, which is what an
  f-string field holding a list inserts.
\<close>

definition hex_digit :: "nat \<Rightarrow> char" where
  "hex_digit d = ''0123456789abcdef'' ! (d mod 16)"

definition escape_hex :: "char \<Rightarrow> string" where
  "escape_hex c = (let n = (of_char c :: nat) in
     [backslash, CHR ''x'', hex_digit (n div 16), hex_digit (n mod 16)])"

definition isprintable :: "char \<Rightarrow> bool" where
  "isprintable c = (let n = (of_char c :: nat) in
     32 \<le> n \<and> \<not> (127 \<le> n \<and> n \<le> 160) \<and> n \<noteq> 173)"

definition repr_char :: "char \<Rightarrow> char \<Rightarrow> string" where
  "repr_char quote c = (let n = (of_char c :: nat) in
     if c = quote \<or> c = backslash then [backslash, c]
     else if n = 9 then [backslash, CHR ''t'']
     else if n = 10 then [backslash, CHR ''n'']
     else if n = 13 then [backslash, CHR ''r'']
     else if n < 32 \<or> n = 127 then escape_hex c
     else if n < 127 then [c]
     else if \<not> isprintable c then escape_hex c
     else [c])"

definition repr_str :: "string \<Rightarrow> string" where
  "repr_str s = (let quote = (if sq \<in> set s \<and> dq \<notin> set s then dq else sq) in
     [quote] @ concat (map (repr_char quote) s) @ [quote])"

definition repr_list :: "string list \<Rightarrow> string" where
  "repr_list xs = ''['' @ join '', '' (map repr_str xs) @ '']''"

section \<open>Regular expressions\<close>

text \<open>
  The two patterns of the program are sequences of bounded repetitions of a single
  character class. \<open>match_pieces\<close> returns what is left of the input after each way of
  matching the sequence at the start of the input, the greedy way first.
\<close>

datatype atom = Digit | Lit char

datatype piece = Rep atom nat nat

fun atom_ok :: "atom \<Rightarrow> char \<Rightarrow> bool" where
  "atom_ok Digit c = is_digit c"
| "atom_ok (Lit l) c = (c = l)"

fun match_pieces :: "piece list \<Rightarrow> string \<Rightarrow> string list" where
  "match_pieces [] s = [s]"
| "match_pieces (Rep a lo hi # ps) s =
     (let n = min hi (length (takeWhile (atom_ok a) s)) in
      concat (map (\<lambda>k. match_pieces ps (drop k s)) (rev [lo..<Suc n])))"

text \<open>
  \<open>$\<close> without the MULTILINE flag matches at the end of the string and also just before
  a newline that is the last character of the string.
\<close>

definition at_dollar :: "string \<Rightarrow> bool" where
  "at_dollar rest = (rest = [] \<or> rest = [newline])"

text \<open>\<open>re.match(r'^\d{1,2}:\d{2}:\d{2}$', s)\<close>, as a truth value\<close>

definition duration_pattern :: "piece list" where
  "duration_pattern =
     [Rep Digit 1 2, Rep (Lit CHR '':'') 1 1, Rep Digit 2 2, Rep (Lit CHR '':'') 1 1, Rep Digit 2 2]"

definition match_duration :: "string \<Rightarrow> bool" where
  "match_duration s = list_ex at_dollar (match_pieces duration_pattern s)"

text \<open>
  \<open>re.search(r'OAR_JOB_ID=(\d+)', s)\<close>: the leftmost position where the literal is
  followed by a digit; the value is group 1, the longest run of digits there.
\<close>

definition job_id_literal :: string where
  "job_id_literal = ''OAR_JOB_ID=''"

fun search_job_id :: "string \<Rightarrow> string option" where
  "search_job_id [] = None"
| "search_job_id (c # cs) =
     (let s = c # cs; ds = takeWhile is_digit (drop (length job_id_literal) s) in
      if prefix job_id_literal s \<and> ds \<noteq> [] then Some ds else search_job_id cs)"

section \<open>Remote command executor\<close>

text \<open>
  What the operating system does with a child process is a parameter: given the argument
  vectors run so far and the one to run now, the child either exits after some time with
  a return code and the decoded text of its two output streams, or never exits.
\<close>

datatype process = Exited nat int string string | Hangs

type_synonym trace = "string list list"

record env =
  CLUSTER_HOSTNAME :: string
  spawn :: "trace \<Rightarrow> string list \<Rightarrow> process"

datatype exn = ValueError string

fun str_exn :: "exn \<Rightarrow> string" where
  "str_exn (ValueError m) = m"

text \<open>
  \<open>subprocess.run(args, capture_output=True, text=True, check=True, timeout=t)\<close>: the
  call is recorded in the trace.
\<close>

datatype run_result =
    CompletedProcess string string
  | CalledProcessError int string string
  | TimeoutExpired

definition subprocess_run :: "env \<Rightarrow> string list \<Rightarrow> nat \<Rightarrow> trace \<Rightarrow> run_result \<times> trace" where
  "subprocess_run e args timeout tr =
     (case spawn e tr args of
        Hangs \<Rightarrow> (TimeoutExpired, tr @ [args])
      | Exited elapsed returncode out err \<Rightarrow>
          if timeout < elapsed then (TimeoutExpired, tr @ [args])
          else if returncode \<noteq> 0 then (CalledProcessError returncode out err, tr @ [args])
          else (CompletedProcess out err, tr @ [args]))"

definition run_ssh_command :: "env \<Rightarrow> string \<Rightarrow> trace \<Rightarrow> (exn + string) \<times> trace" where
  "run_ssh_command e command tr =
     (let full_command = [''ssh'', CLUSTER_HOSTNAME e, command] in
      case subprocess_run e full_command 30 tr of
        (CompletedProcess out err, tr') \<Rightarrow> (Inr (strip out), tr')
      | (CalledProcessError rc out err, tr') \<Rightarrow>
          (Inl (ValueError (''Command failed: '' @ strip err)), tr')
      | (TimeoutExpired, tr') \<Rightarrow> (Inl (ValueError ''Command timed out''), tr'))"

section \<open>Cluster topology\<close>

definition list_machines :: "env \<Rightarrow> trace \<Rightarrow> (exn + string list) \<times> trace" where
  "list_machines e tr =
     (case run_ssh_command e ''oarnodes -l'' tr of
        (Inl x, tr') \<Rightarrow> (Inl x, tr')
      | (Inr output, tr') \<Rightarrow>
          (Inr (map strip (filter (\<lambda>line. strip line \<noteq> []) (split_on newline output))), tr'))"

fun collect_clusters :: "string list \<Rightarrow> string set \<Rightarrow> string set" where
  "collect_clusters [] clusters = clusters"
| "collect_clusters (machine # machines) clusters =
     (if CHR ''-'' \<in> set machine
      then collect_clusters machines (insert (hd (split_on CHR ''-'' machine)) clusters)
      else collect_clusters machines clusters)"

definition list_clusters :: "env \<Rightarrow> trace \<Rightarrow> (exn + string list) \<times> trace" where
  "list_clusters e tr =
     (case list_machines e tr of
        (Inl x, tr') \<Rightarrow> (Inl x, tr')
      | (Inr machines, tr') \<Rightarrow> (Inr (sorted_list_of_set (collect_clusters machines {})), tr'))"

text \<open>
  \<open>json.loads\<close> is a parameter: it returns the parsed value, of a type left open, or
  fails with a \<open>JSONDecodeError\<close> whose text is given.
\<close>

type_synonym 'j loads = "string \<Rightarrow> string + 'j"

text \<open>
  The dictionaries the operations return: the parsed scheduler output as it is, or the
  fields the operation builds, in the order it writes them.
\<close>

datatype dval = Str string | EmptyDict

datatype 'j response = Json 'j | Fields "(string \<times> dval) list"

definition list_machines_detailed ::
    "'j loads \<Rightarrow> env \<Rightarrow> trace \<Rightarrow> (exn + 'j response) \<times> trace" where
  "list_machines_detailed loads e tr =
     (case run_ssh_command e ''oarnodes -J'' tr of
        (Inl x, tr') \<Rightarrow> (Inl x, tr')
      | (Inr output, tr') \<Rightarrow>
          (case loads output of
             Inr v \<Rightarrow> (Inr (Json v), tr')
           | Inl msg \<Rightarrow>
               (Inr (Fields [(''error'', Str (''Failed to parse JSON output: '' @ msg)),
                             (''raw_output'', Str output)]), tr')))"

section \<open>Job operations\<close>

definition delete_job :: "env \<Rightarrow> int \<Rightarrow> trace \<Rightarrow> string \<times> trace" where
  "delete_job e job_id tr =
     (case run_ssh_command e (''oardel '' @ str_int job_id) tr of
        (Inr output, tr') \<Rightarrow>
          (''Job '' @ str_int job_id @ '' deletion requested: '' @ output, tr')
      | (Inl x, tr') \<Rightarrow>
          (''Failed to delete job '' @ str_int job_id @ '': '' @ str_exn x, tr'))"

definition invalid_time_message :: string where
  "invalid_time_message =
     ''Invalid time format. Use hh:mm:ss (e.g., '' @ [sq] @ ''1:30:00'' @ [sq] @ '')''"

definition extend_walltime :: "env \<Rightarrow> int \<Rightarrow> string \<Rightarrow> bool \<Rightarrow> trace \<Rightarrow> string \<times> trace" where
  "extend_walltime e job_id additional_time force tr =
     (if \<not> match_duration additional_time then (invalid_time_message, tr)
      else
        (let command = ''oarwalltime '' @ str_int job_id @ '' +'' @ additional_time;
             command = (if force then command @ '' --force'' else command) in
         case run_ssh_command e command tr of
           (Inr output, tr') \<Rightarrow>
             (''Extended walltime for job '' @ str_int job_id @ '': '' @ output, tr')
         | (Inl x, tr') \<Rightarrow>
             (''Failed to extend walltime for job '' @ str_int job_id @ '': '' @ str_exn x, tr')))"

definition get_walltime_status :: "env \<Rightarrow> int \<Rightarrow> trace \<Rightarrow> string \<times> trace" where
  "get_walltime_status e job_id tr =
     (case run_ssh_command e (''oarwalltime '' @ str_int job_id) tr of
        (Inr output, tr') \<Rightarrow>
          (''Walltime status for job '' @ str_int job_id @ '': '' @ output, tr')
      | (Inl x, tr') \<Rightarrow>
          (''Failed to get walltime status for job '' @ str_int job_id @ '': '' @ str_exn x, tr'))"

subsection \<open>Job creation\<close>

text \<open>The truth value of an optional list or string, and its elements.\<close>

fun truthy :: "'a list option \<Rightarrow> bool" where
  "truthy None = False"
| "truthy (Some xs) = (xs \<noteq> [])"

fun elems :: "'a list option \<Rightarrow> 'a list" where
  "elems None = []"
| "elems (Some xs) = xs"

definition invalid_walltime_message :: string where
  "invalid_walltime_message =
     ''Invalid walltime format. Use hh:mm:ss (e.g., '' @ [sq] @ ''1:00:00'' @ [sq] @ '')''"

definition cluster_term :: "string \<Rightarrow> string" where
  "cluster_term c = ''cluster='' @ [sq] @ c @ [sq]"

definition resource_string :: "string list option \<Rightarrow> int \<Rightarrow> string \<Rightarrow> string" where
  "resource_string clusters nodes walltime =
     (if truthy clusters then
        (let cluster_part =
           (if length (elems clusters) = 1
            then ''{'' @ cluster_term (hd (elems clusters)) @ ''}''
            else (let cluster_constraint = join '' OR '' (map cluster_term (elems clusters))
                  in ''{('' @ cluster_constraint @ '')}''))
         in cluster_part @ ''/nodes='' @ str_int nodes @ '',walltime='' @ walltime)
      else ''nodes='' @ str_int nodes @ '',walltime='' @ walltime)"

definition oarsub_args :: "string \<Rightarrow> string option \<Rightarrow> bool \<Rightarrow> string \<Rightarrow> string list" where
  "oarsub_args resource name best_effort command =
     [''oarsub'', ''-l'', resource]
     @ (if truthy name then [''-n'', elems name] else [])
     @ (if best_effort then [''-t'', ''besteffort''] else [])
     @ [command]"

definition full_command ::
    "string list option \<Rightarrow> string \<Rightarrow> string option \<Rightarrow> bool \<Rightarrow> string \<Rightarrow> string" where
  "full_command clusters resource name best_effort command =
     (if truthy clusters then
        (let cmd_parts = [''oarsub'', ''-l''] @ [[dq] @ resource @ [dq]]
               @ (if truthy name then [''-n'', elems name] else [])
               @ (if best_effort then [''-t'', ''besteffort''] else [])
               @ [[sq] @ command @ [sq]]
         in join '' '' cmd_parts)
      else join '' '' (map (\<lambda>arg. if CHR '' '' \<in> set arg then [sq] @ arg @ [sq] else arg)
                        (oarsub_args resource name best_effort command)))"

definition job_result :: "string \<Rightarrow> string" where
  "job_result output =
     (case search_job_id output of
        Some job_id \<Rightarrow>
          ''Job created successfully with ID: '' @ job_id @ [newline] @ ''Output: '' @ output
      | None \<Rightarrow> ''Job submission completed: '' @ output)"

definition submit :: "env \<Rightarrow> string \<Rightarrow> trace \<Rightarrow> string \<times> trace" where
  "submit e command_line tr =
     (case run_ssh_command e command_line tr of
        (Inr output, tr') \<Rightarrow> (job_result output, tr')
      | (Inl x, tr') \<Rightarrow> (''Failed to create job: '' @ str_exn x, tr'))"

definition create_job ::
    "env \<Rightarrow> string list option \<Rightarrow> int \<Rightarrow> string \<Rightarrow> string \<Rightarrow> string option \<Rightarrow> bool
     \<Rightarrow> trace \<Rightarrow> string \<times> trace" where
  "create_job e clusters nodes walltime command name best_effort tr =
     (if \<not> match_duration walltime then (invalid_walltime_message, tr)
      else if truthy clusters then
        (case list_clusters e tr of
           (Inl x, tr') \<Rightarrow> (''Failed to create job: '' @ str_exn x, tr')
         | (Inr available_clusters, tr') \<Rightarrow>
             (let invalid_clusters = filter (\<lambda>c. c \<notin> set available_clusters) (elems clusters) in
              if invalid_clusters \<noteq> []
              then (''Invalid clusters: '' @ repr_list invalid_clusters
                    @ ''. Available: '' @ repr_list available_clusters, tr')
              else submit e (full_command clusters (resource_string clusters nodes walltime)
                               name best_effort command) tr'))
      else submit e (full_command clusters (resource_string clusters nodes walltime)
                       name best_effort command) tr)"

subsection \<open>Structured queries\<close>

definition parse_error_fields :: "string \<Rightarrow> string \<Rightarrow> 'j response" where
  "parse_error_fields msg output =
     Fields [(''error'', Str (''Failed to parse JSON output: '' @ msg)),
             (''raw_output'', Str output)]"

definition get_job_status :: "'j loads \<Rightarrow> env \<Rightarrow> int \<Rightarrow> trace \<Rightarrow> 'j response \<times> trace" where
  "get_job_status loads e job_id tr =
     (case run_ssh_command e (''oarstat -j '' @ str_int job_id @ '' -J'') tr of
        (Inl x, tr') \<Rightarrow>
          (Fields [(''error'', Str (''Failed to get job status for '' @ str_int job_id
                                    @ '': '' @ str_exn x))], tr')
      | (Inr output, tr') \<Rightarrow>
          (case loads output of
             Inr v \<Rightarrow> (Json v, tr')
           | Inl msg \<Rightarrow> (parse_error_fields msg output, tr')))"

definition list_all_jobs :: "'j loads \<Rightarrow> env \<Rightarrow> trace \<Rightarrow> 'j response \<times> trace" where
  "list_all_jobs loads e tr =
     (case run_ssh_command e ''oarstat -J'' tr of
        (Inl x, tr') \<Rightarrow> (Fields [(''error'', Str (''Failed to list jobs: '' @ str_exn x))], tr')
      | (Inr output, tr') \<Rightarrow>
          (case loads output of
             Inr v \<Rightarrow> (Json v, tr')
           | Inl msg \<Rightarrow> (parse_error_fields msg output, tr')))"

definition list_my_jobs :: "'j loads \<Rightarrow> env \<Rightarrow> trace \<Rightarrow> 'j response \<times> trace" where
  "list_my_jobs loads e tr =
     (case run_ssh_command e ''oarstat -u'' tr of
        (Inl x, tr1) \<Rightarrow>
          (Fields [(''error'', Str (''Failed to list jobs for current user: '' @ str_exn x))], tr1)
      | (Inr regular_output, tr1) \<Rightarrow>
          if strip regular_output = []
          then (Fields [(''message'', Str ''No jobs found for current user''),
                        (''jobs'', EmptyDict)], tr1)
          else
            (case run_ssh_command e ''oarstat -u -J'' tr1 of
               (Inl x, tr2) \<Rightarrow>
                 (Fields [(''error'', Str (''Failed to list jobs for current user: ''
                                           @ str_exn x))], tr2)
             | (Inr output, tr2) \<Rightarrow>
                 (case loads output of
                    Inr v \<Rightarrow> (Json v, tr2)
                  | Inl msg \<Rightarrow>
                      (case run_ssh_command e ''oarstat -u'' tr2 of
                         (Inr regular_output, tr3) \<Rightarrow>
                           (Fields [(''message'',
                                     Str ''Jobs for current user (text format due to JSON parsing error)''),
                                    (''output'', Str regular_output)], tr3)
                       | (Inl x, tr3) \<Rightarrow>
                           (Fields [(''error'',
                                     Str (''Failed to parse JSON output and fallback failed: '' @ msg)),
                                    (''raw_output'', Str output)], tr3)))))"

section \<open>Properties named by the specification\<close>

text \<open>
  The duration grammar \<open>\d{1,2}:\d{2}:\d{2}\<close>: one or two digits, a colon, two digits, a
  colon, two digits, and nothing else.
\<close>

definition duration_grammar :: "string \<Rightarrow> bool" where
  "duration_grammar s =
     (case split_on CHR '':'' s of
        [h, m, x] \<Rightarrow> (length h = 1 \<or> length h = 2) \<and> length m = 2 \<and> length x = 2
                     \<and> list_all is_digit (h @ m @ x)
      | _ \<Rightarrow> False)"

text \<open>
  A request passes validation, leaving the trace \<open>tr1\<close>: its walltime matches, and when
  clusters are named the inventory listing succeeds and knows all of them.
\<close>

definition passes_validation ::
    "env \<Rightarrow> string list option \<Rightarrow> string \<Rightarrow> trace \<Rightarrow> trace \<Rightarrow> bool" where
  "passes_validation e clusters walltime tr tr1 =
     (match_duration walltime \<and>
      (if truthy clusters
       then (case list_clusters e tr of
               (Inr available, t) \<Rightarrow> t = tr1 \<and> list_all (\<lambda>c. c \<in> set available) (elems clusters)
             | (Inl x, t) \<Rightarrow> False)
       else tr1 = tr))"

text \<open>The command line that a request passing validation sends.\<close>

definition command_line ::
    "string list option \<Rightarrow> int \<Rightarrow> string \<Rightarrow> string \<Rightarrow> string option \<Rightarrow> bool \<Rightarrow> string" where
  "command_line clusters nodes walltime command name best_effort =
     full_command clusters (resource_string clusters nodes walltime) name best_effort command"

text \<open>A token \<open>OAR_JOB_ID=<digits>\<close> occurs in the output.\<close>

definition has_job_token :: "string \<Rightarrow> bool" where
  "has_job_token output =
     (\<exists>pre d post. output = pre @ job_id_literal @ d # post \<and> is_digit d)"

text \<open>An argument occurs in a command line between double, or single, quotes.\<close>

definition double_quoted :: "string \<Rightarrow> string \<Rightarrow> bool" where
  "double_quoted arg line = sublist ([dq] @ arg @ [dq]) line"

definition single_quoted :: "string \<Rightarrow> string \<Rightarrow> bool" where
  "single_quoted arg line = sublist ([sq] @ arg @ [sq]) line"

definition quote_if_space :: "string \<Rightarrow> string" where
  "quote_if_space arg = (if CHR '' '' \<in> set arg then [sq] @ arg @ [sq] else arg)"

text \<open>
  A degraded result: fields built by the operation, one of them a text holding the parse
  error, one of them the raw text itself.
\<close>

definition degraded_result :: "string \<Rightarrow> string \<Rightarrow> 'j response \<Rightarrow> bool" where
  "degraded_result msg raw r =
     (case r of
        Json v \<Rightarrow> False
      | Fields fs \<Rightarrow>
          list_ex (\<lambda>kv. case snd kv of Str t \<Rightarrow> sublist msg t | EmptyDict \<Rightarrow> False) fs
          \<and> list_ex (\<lambda>kv. snd kv = Str raw) fs)"

section \<open>Example environments\<close>

definition inventory_stdout :: string where
  "inventory_stdout = ''bulbasaur-2'' @ [newline] @ ''  alakazam-1-a '' @ [newline]
     @ ''frontend'' @ [newline] @ ''bulbasaur-1'' @ [newline]"

definition job_stdout :: string where
  "job_stdout = ''OAR_JOB_ID=1234'' @ [newline]"

definition boom_stderr :: string where
  "boom_stderr = '' boom'' @ [newline]"

definition quiet_stdout :: string where
  "quiet_stdout = ''Generate a job key...'' @ [newline]"

definition inventory_env :: env where
  "inventory_env = \<lparr>CLUSTER_HOSTNAME = ''cluster'', spawn = (\<lambda>tr args.
     if args = [''ssh'', ''cluster'', ''oarnodes -l'']
     then Exited 1 0 inventory_stdout []
     else Exited 2 0 job_stdout [])\<rparr>"

definition inventory_machines :: "string list" where
  "inventory_machines = [''bulbasaur-2'', ''alakazam-1-a'', ''frontend'', ''bulbasaur-1'']"

definition inventory_trace :: trace where
  "inventory_trace = [[''ssh'', ''cluster'', ''oarnodes -l'']]"

definition failing_env :: env where
  "failing_env = \<lparr>CLUSTER_HOSTNAME = ''cluster'', spawn = (\<lambda>tr args.
     Exited 1 1 [] boom_stderr)\<rparr>"

definition slow_env :: env where
  "slow_env = \<lparr>CLUSTER_HOSTNAME = ''cluster'', spawn = (\<lambda>tr args.
     Exited 31 0 ''done'' [])\<rparr>"

definition quiet_env :: env where
  "quiet_env = \<lparr>CLUSTER_HOSTNAME = ''cluster'', spawn = (\<lambda>tr args.
     Exited 1 0 quiet_stdout [])\<rparr>"

definition jobs_env :: env where
  "jobs_env = \<lparr>CLUSTER_HOSTNAME = ''cluster'', spawn = (\<lambda>tr args.
     if args = [''ssh'', ''cluster'', ''oarstat -u'']
     then Exited 1 0 ''7 alice'' []
     else Exited 1 0 ''not json'' [])\<rparr>"

definition rejecting_loads :: "unit loads" where
  "rejecting_loads s = Inl ''Expecting value: line 1 column 1 (char 0)''"

definition flaky_env :: env where
  "flaky_env = \<lparr>CLUSTER_HOSTNAME = ''cluster'', spawn = (\<lambda>tr args.
     if args = [''ssh'', ''cluster'', ''oarstat -u'']
     then (if tr = [] then Exited 1 0 ''7 alice'' [] else Exited 1 1 [] boom_stderr)
     else Exited 1 0 ''not json'' [])\<rparr>"

section \<open>Strings and inventory: auxiliary facts\<close>

lemma hd_split_on: "hd (split_on sep s) = takeWhile (\<lambda>c. c \<noteq> sep) s"
  by (induction s) (simp_all add: Let_def)

lemma collect_clusters_eq:
  "collect_clusters machines acc =
     acc \<union> {takeWhile (\<lambda>c. c \<noteq> CHR ''-'') m | m. m \<in> set machines \<and> CHR ''-'' \<in> set m}"
  by (induction machines arbitrary: acc) (auto simp: hd_split_on)

lemma finite_collect_clusters: "finite (collect_clusters machines {})"
  by (simp add: collect_clusters_eq)

lemma rev_dropWhile_split:
  "t = rev (dropWhile P (rev t)) @ rev (takeWhile P (rev t))"
  by (metis rev_append rev_rev_ident takeWhile_dropWhile_id)

lemma strip_decomp:
  "\<exists>pre suf. s = pre @ strip s @ suf \<and> list_all isspace pre \<and> list_all isspace suf"
proof -
  define t where "t = dropWhile isspace s"
  have s: "s = takeWhile isspace s @ t"
    by (simp add: t_def)
  have t: "t = strip s @ rev (takeWhile isspace (rev t))"
    unfolding strip_def t_def by (rule rev_dropWhile_split)
  have p: "list_all isspace (takeWhile isspace s)"
    by (simp add: list_all_iff) (meson set_takeWhileD)
  have q: "list_all isspace (rev (takeWhile isspace (rev t)))"
    by (simp add: list_all_iff) (meson set_takeWhileD)
  from s t p q show ?thesis by metis
qed

lemma strip_ends:
  assumes "strip s \<noteq> []"
  shows "\<not> isspace (hd (strip s)) \<and> \<not> isspace (last (strip s))"
proof -
  define t where "t = dropWhile isspace s"
  define u where "u = dropWhile isspace (rev t)"
  have su: "strip s = rev u" by (simp add: strip_def t_def u_def)
  with assms have un: "u \<noteq> []" by simp
  then have l: "\<not> isspace (hd u)" unfolding u_def by (rule hd_dropWhile)
  have "rev t = takeWhile isspace (rev t) @ u" by (simp add: u_def)
  then have "rev (rev t) = rev (takeWhile isspace (rev t) @ u)" by simp
  then have t: "t = rev u @ rev (takeWhile isspace (rev t))" by simp
  with un have tn: "t \<noteq> []" by auto
  then have "\<not> isspace (hd t)" unfolding t_def by (rule hd_dropWhile)
  moreover from t un have "hd t = hd (rev u)" by (metis hd_append2 rev_is_Nil_conv)
  ultimately show ?thesis using l un su by (simp add: last_rev)
qed

lemma list_machines_inventory:
  "list_machines inventory_env [] = (Inr inventory_machines, inventory_trace)"
  by code_simp

lemma collect_inventory:
  "collect_clusters inventory_machines {} = {''alakazam'', ''bulbasaur''}"
  by (simp add: inventory_machines_def insert_commute)

lemma clusters_inventory:
  "sorted_list_of_set {''alakazam'', ''bulbasaur''} = [''alakazam'', ''bulbasaur'']"
proof -
  have "sorted [''alakazam'', ''bulbasaur''] \<and> distinct [''alakazam'', ''bulbasaur'']"
    by simp
  then have "sorted_list_of_set (set [''alakazam'', ''bulbasaur'']) = [''alakazam'', ''bulbasaur'']"
    by (intro sorted_list_of_set.idem_if_sorted_distinct) simp_all
  then show ?thesis by simp
qed

lemma takeWhile_before_separator:
  "sep \<notin> set p \<Longrightarrow> takeWhile (\<lambda>c. c \<noteq> sep) (p @ sep # rest) = p"
  by (induction p) auto

lemma split_at_separator:
  assumes "sep \<in> set m"
  shows "\<exists>rest. m = takeWhile (\<lambda>c. c \<noteq> sep) m @ sep # rest"
proof -
  let ?d = "dropWhile (\<lambda>c. c \<noteq> sep) m"
  from assms have n: "?d \<noteq> []" by (auto simp: dropWhile_eq_Nil_conv)
  then have "hd ?d = sep"
    using hd_dropWhile[of "\<lambda>c. c \<noteq> sep" m] by simp
  with n have "?d = sep # tl ?d" by (metis list.collapse)
  then have "m = takeWhile (\<lambda>c. c \<noteq> sep) m @ sep # tl ?d"
    by (metis takeWhile_dropWhile_id)
  then show ?thesis ..
qed

lemma prefix_before_separator:
  "{takeWhile (\<lambda>c. c \<noteq> sep) m | m. m \<in> M \<and> sep \<in> set m}
     = {p. \<exists>rest. p @ sep # rest \<in> M \<and> sep \<notin> set p}" (is "?L = ?R")
proof (intro set_eqI iffI)
  fix p assume "p \<in> ?L"
  then obtain m where m: "m \<in> M" "sep \<in> set m" and p: "p = takeWhile (\<lambda>c. c \<noteq> sep) m"
    by blast
  from split_at_separator[OF m(2)] obtain rest where "m = p @ sep # rest"
    unfolding p by blast
  moreover have "sep \<notin> set p" unfolding p by (auto dest: set_takeWhileD)
  ultimately show "p \<in> ?R" using m(1) by blast
next
  fix p assume "p \<in> ?R"
  then obtain rest where a: "p @ sep # rest \<in> M" "sep \<notin> set p" by blast
  from a(2) have "takeWhile (\<lambda>c. c \<noteq> sep) (p @ sep # rest) = p"
    by (rule takeWhile_before_separator)
  with a show "p \<in> ?L"
    by (intro CollectI exI[of _ "p @ sep # rest"]) simp
qed

section \<open>Cluster inventory\<close>

text \<open>
  C8. Whatever hostnames the machine listing returns, \<open>list_clusters\<close> returns the
  substrings before the first \<open>-\<close> of the hostnames that contain one, and nothing
  else: without duplicates, in ascending order, and the same list for any other order or
  repetition of the same hostnames.
\<close>

theorem list_clusters_sorted_prefixes:
  assumes "list_machines e tr = (Inr machines, tr')"
  shows "\<exists>clusters. list_clusters e tr = (Inr clusters, tr')
     \<and> set clusters = {p. \<exists>rest. p @ CHR ''-'' # rest \<in> set machines \<and> CHR ''-'' \<notin> set p}
     \<and> sorted clusters \<and> distinct clusters
     \<and> (\<forall>machines'. set machines' = set machines
           \<longrightarrow> sorted_list_of_set (collect_clusters machines' {}) = clusters)"
proof -
  let ?cs = "sorted_list_of_set (collect_clusters machines {})"
  have 1: "list_clusters e tr = (Inr ?cs, tr')"
    using assms by (simp add: list_clusters_def)
  have 2: "set ?cs = {p. \<exists>rest. p @ CHR ''-'' # rest \<in> set machines \<and> CHR ''-'' \<notin> set p}"
    by (simp add: finite_collect_clusters)
       (simp add: collect_clusters_eq prefix_before_separator)
  have 3: "sorted_list_of_set (collect_clusters machines' {}) = ?cs"
    if "set machines' = set machines" for machines'
    using that by (simp add: collect_clusters_eq)
  show ?thesis
  proof (intro exI[of _ ?cs] conjI allI impI)
    show "list_clusters e tr = (Inr ?cs, tr')" by (rule 1)
    show "set ?cs = {p. \<exists>rest. p @ CHR ''-'' # rest \<in> set machines \<and> CHR ''-'' \<notin> set p}"
      by (rule 2)
    show "sorted ?cs" by (rule sorted_sorted_list_of_set)
    show "distinct ?cs" by (rule distinct_sorted_list_of_set)
    show "sorted_list_of_set (collect_clusters machines' {}) = ?cs"
      if "set machines' = set machines" for machines'
      using that by (rule 3)
  qed
qed

theorem list_clusters_sorted_prefixes_witness:
  "list_machines inventory_env [] = (Inr inventory_machines, inventory_trace)
   \<and> list_clusters inventory_env [] = (Inr [''alakazam'', ''bulbasaur''], inventory_trace)"
proof -
  obtain cs where cs: "list_clusters inventory_env [] = (Inr cs, inventory_trace)"
    and all: "\<forall>machines'. set machines' = set inventory_machines
           \<longrightarrow> sorted_list_of_set (collect_clusters machines' {}) = cs"
    using list_clusters_sorted_prefixes [OF list_machines_inventory] by (elim exE conjE)
  from all have "sorted_list_of_set (collect_clusters inventory_machines {}) = cs"
    by (elim allE[of _ inventory_machines] impE) (rule refl)
  then have "cs = [''alakazam'', ''bulbasaur'']"
    by (simp only: collect_inventory clusters_inventory)
  with cs list_machines_inventory show ?thesis by (simp only: simp_thms)
qed

section \<open>Remote command executor: contract\<close>

lemma strip_boom: "strip boom_stderr = ''boom''"
  by (simp add: boom_stderr_def strip_def isspace_def)

lemma strip_job_stdout: "strip job_stdout = ''OAR_JOB_ID=1234''"
  by (simp add: job_stdout_def strip_def isspace_def)

text \<open>
  C6, as amended. A child that exits with status 0 within 30 time units gives its standard
  output with leading and trailing whitespace removed. A child that exits with another
  status within 30 time units gives a \<open>ValueError\<close> whose message is the text
  \<open>Command failed: \<close> followed by its standard error with leading and trailing
  whitespace removed. A child that takes more than 30 time units, or never exits, gives a
  \<open>ValueError\<close> with the message \<open>Command timed out\<close>. The bound is the
  constant 30 in every call.
\<close>

theorem run_ssh_command_contract:
  "(spawn e tr [''ssh'', CLUSTER_HOSTNAME e, command] = Exited elapsed 0 out err \<and> elapsed \<le> 30
      \<longrightarrow> run_ssh_command e command tr
            = (Inr (strip out), tr @ [[''ssh'', CLUSTER_HOSTNAME e, command]]))
   \<and> (spawn e tr [''ssh'', CLUSTER_HOSTNAME e, command] = Exited elapsed rc out err
        \<and> elapsed \<le> 30 \<and> rc \<noteq> 0
      \<longrightarrow> run_ssh_command e command tr
            = (Inl (ValueError (''Command failed: '' @ strip err)),
               tr @ [[''ssh'', CLUSTER_HOSTNAME e, command]]))
   \<and> (spawn e tr [''ssh'', CLUSTER_HOSTNAME e, command] = Hangs
        \<or> spawn e tr [''ssh'', CLUSTER_HOSTNAME e, command] = Exited elapsed rc out err
          \<and> 30 < elapsed
      \<longrightarrow> run_ssh_command e command tr
            = (Inl (ValueError ''Command timed out''),
               tr @ [[''ssh'', CLUSTER_HOSTNAME e, command]]))
   \<and> (\<exists>pre suf. out = pre @ strip out @ suf \<and> list_all isspace pre \<and> list_all isspace suf)
   \<and> (strip out \<noteq> [] \<longrightarrow> \<not> isspace (hd (strip out)) \<and> \<not> isspace (last (strip out)))"
proof (intro conjI impI)
  show "\<exists>pre suf. out = pre @ strip out @ suf \<and> list_all isspace pre \<and> list_all isspace suf"
    by (rule strip_decomp)
  show "\<not> isspace (hd (strip out))" if "strip out \<noteq> []"
    using strip_ends[OF that] by simp
  show "\<not> isspace (last (strip out))" if "strip out \<noteq> []"
    using strip_ends[OF that] by simp
qed (auto simp: run_ssh_command_def subprocess_run_def)

theorem run_ssh_command_contract_witness:
  "run_ssh_command inventory_env ''oarsub -l nodes=1'' []
     = (Inr ''OAR_JOB_ID=1234'', [[''ssh'', ''cluster'', ''oarsub -l nodes=1'']])
   \<and> run_ssh_command failing_env ''oardel 7'' []
     = (Inl (ValueError ''Command failed: boom''), [[''ssh'', ''cluster'', ''oardel 7'']])
   \<and> run_ssh_command slow_env ''oardel 7'' []
     = (Inl (ValueError ''Command timed out''), [[''ssh'', ''cluster'', ''oardel 7'']])
   \<and> \<not> isspace (hd (strip job_stdout))"
  using run_ssh_command_contract
          [of inventory_env "[]" "''oarsub -l nodes=1''" 2 job_stdout "[]"]
        run_ssh_command_contract
          [of failing_env "[]" "''oardel 7''" 1 "[]" boom_stderr 1]
        run_ssh_command_contract
          [of slow_env "[]" "''oardel 7''" 31 "''done''" "[]" 0]
  by (simp add: inventory_env_def failing_env_def slow_env_def strip_boom strip_job_stdout)

text \<open>
  C6 as stated fails: the message of the error is not the trimmed standard error itself
  but that text behind a fixed prefix.
\<close>

theorem run_ssh_command_message_counterexample:
  "spawn failing_env [] [''ssh'', CLUSTER_HOSTNAME failing_env, ''oardel 7'']
     = Exited 1 1 [] boom_stderr
   \<and> fst (run_ssh_command failing_env ''oardel 7'' [])
       = Inl (ValueError ''Command failed: boom'')
   \<and> fst (run_ssh_command failing_env ''oardel 7'' [])
       \<noteq> Inl (ValueError (strip boom_stderr))"
  by (simp add: run_ssh_command_def subprocess_run_def failing_env_def strip_boom)

section \<open>Job creation: auxiliary facts\<close>

lemma list_clusters_inventory:
  "list_clusters inventory_env [] = (Inr [''alakazam'', ''bulbasaur''], inventory_trace)"
  by (simp add: list_clusters_def list_machines_inventory collect_inventory clusters_inventory)

lemma run_ssh_command_trace:
  "snd (run_ssh_command e command tr) = tr @ [[''ssh'', CLUSTER_HOSTNAME e, command]]"
  by (simp add: run_ssh_command_def subprocess_run_def Let_def split: process.splits)

lemma submit_trace:
  "snd (submit e line tr) = tr @ [[''ssh'', CLUSTER_HOSTNAME e, line]]"
  using run_ssh_command_trace[of e line tr]
  by (cases "run_ssh_command e line tr") (auto simp: submit_def split: sum.splits)

lemma create_job_rejects:
  "\<not> match_duration walltime \<Longrightarrow>
     create_job e clusters nodes walltime command name best_effort tr
       = (invalid_walltime_message, tr)"
  by (simp add: create_job_def)

lemma create_job_submits:
  assumes "passes_validation e clusters walltime tr tr1"
  shows "create_job e clusters nodes walltime command name best_effort tr
           = submit e (command_line clusters nodes walltime command name best_effort) tr1"
proof (cases "truthy clusters")
  case False
  with assms show ?thesis
    by (simp add: passes_validation_def create_job_def command_line_def)
next
  case True
  with assms obtain available where
    l: "list_clusters e tr = (Inr available, tr1)"
    and k: "list_all (\<lambda>c. c \<in> set available) (elems clusters)"
    by (auto simp: passes_validation_def split: prod.splits sum.splits)
  from k have "filter (\<lambda>c. c \<notin> set available) (elems clusters) = []"
    by (simp add: filter_empty_conv list_all_iff)
  with assms True l show ?thesis
    by (simp add: passes_validation_def create_job_def command_line_def)
qed

lemma digit_char_is_digit: "d < 10 \<Longrightarrow> is_digit (digit_char d)"
proof -
  assume "d < 10"
  then have "d \<in> {0, 1, 2, 3, 4, 5, 6, 7, 8, 9}" by auto
  then show ?thesis
    by (auto simp: digit_char_def is_digit_def)
qed

lemma str_nat_digits: "c \<in> set (str_nat n) \<Longrightarrow> is_digit c"
proof (induction n rule: str_nat.induct)
  case (1 n)
  show ?case
  proof (cases "n < 10")
    case True
    with "1.prems" show ?thesis
      by (simp add: str_nat.simps[of n] digit_char_is_digit)
  next
    case False
    with "1.prems" "1.IH" show ?thesis
      by (auto simp: str_nat.simps[of n] digit_char_is_digit)
  qed
qed

lemma str_int_chars: "c \<in> set (str_int n) \<Longrightarrow> is_digit c \<or> c = CHR ''-''"
  by (auto simp: str_int_def dest: str_nat_digits split: if_splits)

lemma take_within_takeWhile:
  assumes "k \<le> length (takeWhile P s)" "c \<in> set (take k s)"
  shows "P c"
proof -
  have "take k s = take k (takeWhile P s @ dropWhile P s)" by simp
  also have "\<dots> = take k (takeWhile P s)" using assms(1) by (simp del: takeWhile_dropWhile_id)
  finally have "c \<in> set (takeWhile P s)" using assms(2) by (auto dest: in_set_takeD)
  then show ?thesis by (rule set_takeWhileD[THEN conjunct2])
qed

lemma match_pieces_chars:
  "r \<in> set (match_pieces ps s) \<Longrightarrow>
     \<exists>u. s = u @ r \<and> (\<forall>c\<in>set u. \<exists>a lo hi. Rep a lo hi \<in> set ps \<and> atom_ok a c)"
proof (induction ps arbitrary: s)
  case Nil
  then show ?case by simp
next
  case (Cons p ps)
  obtain a lo hi where p: "p = Rep a lo hi" by (cases p)
  from Cons.prems obtain k where
    k0: "k < Suc (min hi (length (takeWhile (atom_ok a) s)))"
    and r: "r \<in> set (match_pieces ps (drop k s))"
    by (auto simp add: p Let_def simp del: upt_Suc)
  from k0 have k: "k \<le> length (takeWhile (atom_ok a) s)" by simp
  from Cons.IH[OF r] obtain u where
    u: "drop k s = u @ r" "\<forall>c\<in>set u. \<exists>a lo hi. Rep a lo hi \<in> set ps \<and> atom_ok a c"
    by blast
  have "s = (take k s @ u) @ r" using u(1) by (metis append_assoc append_take_drop_id)
  moreover have "\<exists>b lo hi. Rep b lo hi \<in> set (p # ps) \<and> atom_ok b c"
    if "c \<in> set (take k s @ u)" for c
  proof -
    from that consider "c \<in> set (take k s)" | "c \<in> set u" by auto
    then show ?thesis
    proof cases
      case 1
      then have "atom_ok a c" by (rule take_within_takeWhile[OF k])
      then show ?thesis unfolding p by (intro exI[of _ a] exI[of _ lo] exI[of _ hi]) simp
    next
      case 2
      with u(2) obtain b l h where "Rep b l h \<in> set ps" "atom_ok b c" by blast
      then show ?thesis by (intro exI[of _ b] exI[of _ l] exI[of _ h]) simp
    qed
  qed
  ultimately show ?case by blast
qed

lemma match_duration_chars:
  assumes "match_duration w" "c \<in> set w"
  shows "is_digit c \<or> c = CHR '':'' \<or> c = newline"
proof -
  from assms(1) obtain r where r: "r \<in> set (match_pieces duration_pattern w)" "at_dollar r"
    by (auto simp: match_duration_def list_ex_iff)
  from match_pieces_chars[OF r(1)] obtain u where
    u: "w = u @ r" "\<forall>c\<in>set u. \<exists>a lo hi. Rep a lo hi \<in> set duration_pattern \<and> atom_ok a c"
    by blast
  from assms(2) u(1) have "c \<in> set u \<or> c \<in> set r" by auto
  then show ?thesis
  proof
    assume "c \<in> set u"
    with u(2) show ?thesis by (auto simp: duration_pattern_def)
  next
    assume "c \<in> set r"
    with r(2) show ?thesis by (auto simp: at_dollar_def)
  qed
qed

section \<open>Job creation: the resource-selection string\<close>

lemma join_Cons2: "xs \<noteq> [] \<Longrightarrow> join sep (x # xs) = x @ sep @ join sep xs"
  by (cases xs) simp_all

lemma join_concat:
  "join sep (x # xs) = x @ concat (map (\<lambda>y. sep @ y) xs)"
  by (induction xs arbitrary: x) (simp_all add: join_Cons2)

lemma passes_inventory:
  "passes_validation inventory_env (Some [''bulbasaur'', ''alakazam'', ''bulbasaur'']) ''2:00:00''
     [] inventory_trace"
proof -
  have "match_duration ''2:00:00''" by code_simp
  then show ?thesis
    by (simp add: passes_validation_def list_clusters_inventory)
qed

text \<open>
  C1. The resource-selection string that job creation compiles is
  \<open>{cluster='c'}/nodes=n,walltime=w\<close> for the single cluster \<open>c\<close>, is
  \<open>{(cluster='c1' OR cluster='c2' OR ...)}/nodes=n,walltime=w\<close> for two or more
  clusters, each name once per occurrence and in the order given, and is
  \<open>nodes=n,walltime=w\<close> when the list is empty or absent; a request that passes
  validation sends the command line built from that string.
\<close>

theorem resource_string_exact:
  "resource_string (Some [c]) n w
     = ''{cluster='' @ [sq] @ c @ [sq] @ ''}/nodes='' @ str_int n @ '',walltime='' @ w
   \<and> resource_string (Some (c1 # c2 # cs)) n w
     = ''{(cluster='' @ [sq] @ c1 @ [sq]
       @ concat (map (\<lambda>c. '' OR cluster='' @ [sq] @ c @ [sq]) (c2 # cs))
       @ '')}/nodes='' @ str_int n @ '',walltime='' @ w
   \<and> resource_string (Some []) n w = ''nodes='' @ str_int n @ '',walltime='' @ w
   \<and> resource_string None n w = ''nodes='' @ str_int n @ '',walltime='' @ w
   \<and> (passes_validation e clusters w tr tr1 \<longrightarrow>
        create_job e clusters n w command name best_effort tr
          = submit e (full_command clusters (resource_string clusters n w)
                        name best_effort command) tr1)"
proof (intro conjI impI)
  show "resource_string (Some (c1 # c2 # cs)) n w
     = ''{(cluster='' @ [sq] @ c1 @ [sq]
       @ concat (map (\<lambda>c. '' OR cluster='' @ [sq] @ c @ [sq]) (c2 # cs))
       @ '')}/nodes='' @ str_int n @ '',walltime='' @ w"
    unfolding resource_string_def
    by (simp add: join_concat cluster_term_def comp_def del: join.simps)
  show "create_job e clusters n w command name best_effort tr
          = submit e (full_command clusters (resource_string clusters n w)
                        name best_effort command) tr1"
    if "passes_validation e clusters w tr tr1"
    using create_job_submits[OF that] by (simp add: command_line_def)
qed (simp_all add: resource_string_def cluster_term_def)

lemma str_int_2: "str_int 2 = ''2''"
  by code_simp

theorem resource_string_exact_witness:
  "passes_validation inventory_env (Some [''bulbasaur'', ''alakazam'', ''bulbasaur'']) ''2:00:00''
     [] inventory_trace
   \<and> resource_string (Some [''bulbasaur'', ''alakazam'', ''bulbasaur'']) 2 ''2:00:00''
     = ''{(cluster='' @ [sq] @ ''bulbasaur'' @ [sq] @ '' OR cluster='' @ [sq] @ ''alakazam'' @ [sq]
        @ '' OR cluster='' @ [sq] @ ''bulbasaur'' @ [sq] @ '')}/nodes=2,walltime=2:00:00''
   \<and> create_job inventory_env (Some [''bulbasaur'', ''alakazam'', ''bulbasaur'']) 2 ''2:00:00''
        ''sleep 365d'' None False []
     = submit inventory_env
        (full_command (Some [''bulbasaur'', ''alakazam'', ''bulbasaur''])
           (resource_string (Some [''bulbasaur'', ''alakazam'', ''bulbasaur'']) 2 ''2:00:00'')
           None False ''sleep 365d'') inventory_trace"
  using resource_string_exact
          [of "''x''" 2 "''2:00:00''" "''bulbasaur''" "''alakazam''" "[''bulbasaur'']"
              inventory_env "Some [''bulbasaur'', ''alakazam'', ''bulbasaur'']" "[]"
              inventory_trace "''sleep 365d''" None False]
        passes_inventory
  by (simp add: str_int_2)

section \<open>Job creation: the node count\<close>

text \<open>The decimal digits that \<open>str\<close> writes denote the number they were written for.\<close>

lemma digit_char_value: "d < 10 \<Longrightarrow> of_char (digit_char d) = 48 + d"
proof -
  assume "d < 10"
  then have "d \<in> {0, 1, 2, 3, 4, 5, 6, 7, 8, 9}" by auto
  then show ?thesis by (auto simp: digit_char_def)
qed

lemma str_nat_value:
  "foldl (\<lambda>acc c. 10 * acc + (of_char c - 48)) 0 (str_nat n) = n"
proof (induction n rule: str_nat.induct)
  case (1 n)
  show ?case
  proof (cases "n < 10")
    case True
    then show ?thesis by (simp add: str_nat.simps[of n] digit_char_value)
  next
    case False
    with "1.IH" show ?thesis
      by (simp add: str_nat.simps[of n] digit_char_value)
  qed
qed

lemma str_int_negative: "n < 0 \<Longrightarrow> str_int n = CHR ''-'' # str_int (- n)"
  by (simp add: str_int_def)

lemma resource_string_nodes:
  "\<exists>pre. resource_string clusters n w = pre @ ''nodes='' @ str_int n @ '',walltime='' @ w"
proof (cases "truthy clusters")
  case True
  define part where "part =
    (if length (elems clusters) = 1 then ''{'' @ cluster_term (hd (elems clusters)) @ ''}''
     else ''{('' @ join '' OR '' (map cluster_term (elems clusters)) @ '')}'')"
  from True have "resource_string clusters n w
      = (part @ ''/'') @ ''nodes='' @ str_int n @ '',walltime='' @ w"
    by (simp add: resource_string_def part_def)
  then show ?thesis by (intro exI[of _ "part @ ''/''"])
next
  case False
  then have "resource_string clusters n w = [] @ ''nodes='' @ str_int n @ '',walltime='' @ w"
    by (simp add: resource_string_def)
  then show ?thesis by (intro exI[of _ "[]"])
qed


section \<open>Job creation: the command line\<close>

lemma full_command_constrained:
  "truthy clusters \<Longrightarrow>
     full_command clusters resource name best_effort command
       = ''oarsub -l '' @ [dq] @ resource @ [dq]
         @ (if truthy name then '' -n '' @ elems name else [])
         @ (if best_effort then '' -t besteffort'' else [])
         @ '' '' @ [sq] @ command @ [sq]"
  by (simp add: full_command_def)

lemma full_command_unconstrained:
  "\<not> truthy clusters \<Longrightarrow>
     full_command clusters resource name best_effort command
       = ''oarsub -l '' @ quote_if_space resource
         @ (if truthy name then '' -n '' @ quote_if_space (elems name) else [])
         @ (if best_effort then '' -t besteffort'' else [])
         @ '' '' @ quote_if_space command"
  by (simp add: full_command_def oarsub_args_def quote_if_space_def)

lemma is_digit_not_space: "is_digit c \<Longrightarrow> c \<noteq> CHR '' ''"
  by (auto simp: is_digit_def)

lemma resource_string_no_space:
  assumes "\<not> truthy clusters" "match_duration walltime"
  shows "CHR '' '' \<notin> set (resource_string clusters nodes walltime)"
proof
  assume "CHR '' '' \<in> set (resource_string clusters nodes walltime)"
  with assms(1) have "CHR '' '' \<in> set (str_int nodes) \<or> CHR '' '' \<in> set walltime"
    by (auto simp: resource_string_def)
  then show False
  proof
    assume "CHR '' '' \<in> set (str_int nodes)"
    from str_int_chars[OF this] show False by (auto dest: is_digit_not_space)
  next
    assume "CHR '' '' \<in> set walltime"
    from match_duration_chars[OF assms(2) this] show False
      by (auto dest: is_digit_not_space)
  qed
qed

lemma create_job_sends:
  assumes "passes_validation e clusters walltime tr tr1"
  shows "snd (create_job e clusters nodes walltime command name best_effort tr)
     = tr1 @ [[''ssh'', CLUSTER_HOSTNAME e,
               command_line clusters nodes walltime command name best_effort]]"
  by (simp add: create_job_submits[OF assms] submit_trace)


text \<open>
  C10. The node count is not validated. For every integer \<open>n\<close>, a request that passes
  validation (a matching walltime, and clusters absent or all known) sends a command line
  \<open>oarsub -l\<close> followed by the resource-selection string, and that string ends with
  \<open>nodes=\<close>, the decimal text of \<open>n\<close> as \<open>str\<close> writes it, and the walltime.
\<close>

theorem node_count_not_validated:
  assumes "passes_validation e clusters walltime tr tr1"
  shows "(\<exists>pre. resource_string clusters nodes walltime
             = pre @ ''nodes='' @ str_int nodes @ '',walltime='' @ walltime)
     \<and> (\<exists>rest. snd (create_job e clusters nodes walltime command name best_effort tr)
           = tr1 @ [[''ssh'', CLUSTER_HOSTNAME e,
                     ''oarsub -l ''
                     @ (if truthy clusters
                        then [dq] @ resource_string clusters nodes walltime @ [dq]
                        else resource_string clusters nodes walltime)
                     @ rest]])"
proof (intro conjI)
  show "\<exists>pre. resource_string clusters nodes walltime
             = pre @ ''nodes='' @ str_int nodes @ '',walltime='' @ walltime"
    by (rule resource_string_nodes)
  let ?r = "resource_string clusters nodes walltime"
  let ?tail = "(if truthy name then '' -n '' @ elems name else [])
         @ (if best_effort then '' -t besteffort'' else [])
         @ '' '' @ [sq] @ command @ [sq]"
  let ?tail' = "(if truthy name then '' -n '' @ quote_if_space (elems name) else [])
         @ (if best_effort then '' -t besteffort'' else [])
         @ '' '' @ quote_if_space command"
  show "\<exists>rest. snd (create_job e clusters nodes walltime command name best_effort tr)
           = tr1 @ [[''ssh'', CLUSTER_HOSTNAME e,
                     ''oarsub -l '' @ (if truthy clusters then [dq] @ ?r @ [dq] else ?r) @ rest]]"
  proof (cases "truthy clusters")
    case True
    show ?thesis
      by (intro exI[of _ ?tail])
         (simp add: create_job_sends[OF assms] command_line_def
                    full_command_constrained[OF True] True)
  next
    case False
    from assms have "match_duration walltime" by (simp add: passes_validation_def)
    from resource_string_no_space[OF False this] have "quote_if_space ?r = ?r"
      by (simp add: quote_if_space_def)
    then show ?thesis
      by (intro exI[of _ ?tail'])
         (simp add: create_job_sends[OF assms] command_line_def
                    full_command_unconstrained[OF False] False)
  qed
qed

lemma passes_unconstrained: "passes_validation quiet_env None ''1:00:00'' [] []"
proof -
  have "match_duration ''1:00:00''" by code_simp
  then show ?thesis by (simp add: passes_validation_def)
qed

lemma str_int_minus_3: "str_int (- 3) = ''-3''"
  by code_simp

theorem node_count_not_validated_witness:
  "passes_validation quiet_env None ''1:00:00'' [] []
   \<and> (\<exists>pre. resource_string None (- 3) ''1:00:00'' = pre @ ''nodes=-3,walltime=1:00:00'')
   \<and> (\<exists>rest. snd (create_job quiet_env None (- 3) ''1:00:00'' ''sleep 365d'' None False [])
         = [[''ssh'', ''cluster'',
             ''oarsub -l '' @ resource_string None (- 3) ''1:00:00'' @ rest]])"
  using node_count_not_validated[OF passes_unconstrained, of "- 3" "''sleep 365d''" None False]
        passes_unconstrained
  by (simp add: str_int_minus_3 quiet_env_def)

text \<open>
  C2, as amended. With clusters named, the command line is \<open>oarsub -l\<close>, the
  resource-selection string between double quotes whatever it contains, the name flag
  with the name, the best-effort flag, and the command between single quotes whatever it
  contains; a name with no space in it is emitted as it is, and nothing is said here of
  how a name with a space is written. With no cluster named, every argument is put
  between single quotes exactly when it contains a space character and is emitted as it
  is otherwise; the resource-selection string of a request with a matching walltime
  contains no space, so it is emitted without quotes.
\<close>

theorem full_command_quoting:
  "(truthy clusters \<longrightarrow>
      (\<exists>shown. (CHR '' '' \<notin> set (elems name) \<longrightarrow> shown = elems name)
         \<and> full_command clusters resource name best_effort command
             = ''oarsub -l '' @ [dq] @ resource @ [dq]
               @ (if truthy name then '' -n '' @ shown else [])
               @ (if best_effort then '' -t besteffort'' else [])
               @ '' '' @ [sq] @ command @ [sq]))
   \<and> (\<not> truthy clusters \<longrightarrow>
      full_command clusters resource name best_effort command
        = ''oarsub -l '' @ quote_if_space resource
          @ (if truthy name then '' -n '' @ quote_if_space (elems name) else [])
          @ (if best_effort then '' -t besteffort'' else [])
          @ '' '' @ quote_if_space command)
   \<and> (\<not> truthy clusters \<and> match_duration walltime \<longrightarrow>
      quote_if_space (resource_string clusters nodes walltime)
        = resource_string clusters nodes walltime)"
proof (intro conjI impI)
  show "\<exists>shown. (CHR '' '' \<notin> set (elems name) \<longrightarrow> shown = elems name)
         \<and> full_command clusters resource name best_effort command
             = ''oarsub -l '' @ [dq] @ resource @ [dq]
               @ (if truthy name then '' -n '' @ shown else [])
               @ (if best_effort then '' -t besteffort'' else [])
               @ '' '' @ [sq] @ command @ [sq]"
    if "truthy clusters"
    using full_command_constrained[OF that, of resource name best_effort command]
    by (intro exI[of _ "elems name"]) simp
  show "quote_if_space (resource_string clusters nodes walltime)
          = resource_string clusters nodes walltime"
    if "\<not> truthy clusters \<and> match_duration walltime"
    using resource_string_no_space[of clusters walltime nodes] that
    by (simp add: quote_if_space_def)
qed (simp_all add: full_command_unconstrained)

lemma match_1_00_00: "match_duration ''1:00:00''"
  by code_simp

lemma str_int_1: "str_int 1 = ''1''"
  by code_simp

lemma alakazam_resource:
  "resource_string (Some [''alakazam'']) 1 ''1:00:00''
     = ''{cluster='' @ [sq] @ ''alakazam'' @ [sq] @ ''}/nodes=1,walltime=1:00:00''"
  by (simp add: resource_string_def cluster_term_def str_int_1)

theorem full_command_quoting_witness:
  "truthy (Some [''alakazam''])
   \<and> CHR '' '' \<notin> set (elems (Some ''myjob''))
   \<and> full_command (Some [''alakazam'']) (resource_string (Some [''alakazam'']) 1 ''1:00:00'')
        (Some ''myjob'') True ''sleep 365d''
      = ''oarsub -l '' @ [dq] @ ''{cluster='' @ [sq] @ ''alakazam'' @ [sq]
        @ ''}/nodes=1,walltime=1:00:00'' @ [dq]
        @ '' -n myjob -t besteffort '' @ [sq] @ ''sleep 365d'' @ [sq]
   \<and> \<not> truthy (None :: string list option) \<and> match_duration ''1:00:00''
   \<and> full_command None (resource_string None 1 ''1:00:00'') (Some ''my job'') False ''hostname''
      = ''oarsub -l nodes=1,walltime=1:00:00 -n '' @ [sq] @ ''my job'' @ [sq] @ '' hostname''"
proof -
  note c = full_command_quoting
          [of "Some [''alakazam'']" "Some ''myjob''"
              "resource_string (Some [''alakazam'']) 1 ''1:00:00''"
              True "''sleep 365d''" "''1:00:00''" 1]
  have t: "truthy (Some [''alakazam''])" by simp
  have n: "CHR '' '' \<notin> set (elems (Some ''myjob''))" by simp
  from c have "truthy (Some [''alakazam'']) \<longrightarrow>
      (\<exists>shown. (CHR '' '' \<notin> set (elems (Some ''myjob'')) \<longrightarrow> shown = elems (Some ''myjob''))
         \<and> full_command (Some [''alakazam''])
               (resource_string (Some [''alakazam'']) 1 ''1:00:00'') (Some ''myjob'') True
               ''sleep 365d''
             = ''oarsub -l '' @ [dq] @ resource_string (Some [''alakazam'']) 1 ''1:00:00'' @ [dq]
               @ (if truthy (Some ''myjob'') then '' -n '' @ shown else [])
               @ (if True then '' -t besteffort'' else [])
               @ '' '' @ [sq] @ ''sleep 365d'' @ [sq])"
    by (rule conjunct1)
  from this t have "\<exists>shown. (CHR '' '' \<notin> set (elems (Some ''myjob''))
           \<longrightarrow> shown = elems (Some ''myjob''))
         \<and> full_command (Some [''alakazam''])
               (resource_string (Some [''alakazam'']) 1 ''1:00:00'') (Some ''myjob'') True
               ''sleep 365d''
             = ''oarsub -l '' @ [dq] @ resource_string (Some [''alakazam'']) 1 ''1:00:00'' @ [dq]
               @ (if truthy (Some ''myjob'') then '' -n '' @ shown else [])
               @ (if True then '' -t besteffort'' else [])
               @ '' '' @ [sq] @ ''sleep 365d'' @ [sq]"
    by (rule mp)
  then obtain shown where
    s: "CHR '' '' \<notin> set (elems (Some ''myjob'')) \<longrightarrow> shown = elems (Some ''myjob'')"
    and f: "full_command (Some [''alakazam''])
               (resource_string (Some [''alakazam'']) 1 ''1:00:00'') (Some ''myjob'') True
               ''sleep 365d''
             = ''oarsub -l '' @ [dq] @ resource_string (Some [''alakazam'']) 1 ''1:00:00'' @ [dq]
               @ (if truthy (Some ''myjob'') then '' -n '' @ shown else [])
               @ (if True then '' -t besteffort'' else [])
               @ '' '' @ [sq] @ ''sleep 365d'' @ [sq]"
    by (elim exE conjE)
  from s n have "shown = ''myjob''" by simp
  with f have 1: "full_command (Some [''alakazam''])
        (resource_string (Some [''alakazam'']) 1 ''1:00:00'') (Some ''myjob'') True ''sleep 365d''
      = ''oarsub -l '' @ [dq] @ ''{cluster='' @ [sq] @ ''alakazam'' @ [sq]
        @ ''}/nodes=1,walltime=1:00:00'' @ [dq]
        @ '' -n myjob -t besteffort '' @ [sq] @ ''sleep 365d'' @ [sq]"
    by (simp add: alakazam_resource)
  have 2: "full_command None (resource_string None 1 ''1:00:00'') (Some ''my job'') False
             ''hostname''
      = ''oarsub -l nodes=1,walltime=1:00:00 -n '' @ [sq] @ ''my job'' @ [sq] @ '' hostname''"
    using full_command_quoting
          [of None "Some ''my job''" "resource_string None 1 ''1:00:00''"
              False "''hostname''" "''1:00:00''" 1]
          match_1_00_00
    by (simp add: resource_string_def str_int_1 quote_if_space_def)
  from t n 1 2 match_1_00_00 show ?thesis by (simp only: simp_thms truthy.simps)
qed

text \<open>
  C2 as stated fails with no cluster named: the resource-selection string is sent
  without double quotes, and a command with no space in it without single quotes.
\<close>

theorem unconstrained_quoting_counterexample:
  "passes_validation quiet_env None ''1:00:00'' [] []
   \<and> command_line None 1 ''1:00:00'' ''hostname'' None False
       = ''oarsub -l nodes=1,walltime=1:00:00 hostname''
   \<and> \<not> double_quoted (resource_string None 1 ''1:00:00'')
           (command_line None 1 ''1:00:00'' ''hostname'' None False)
   \<and> \<not> single_quoted ''hostname'' (command_line None 1 ''1:00:00'' ''hostname'' None False)"
proof -
  have "command_line None 1 ''1:00:00'' ''hostname'' None False
       = ''oarsub -l nodes=1,walltime=1:00:00 hostname''"
    by code_simp
  moreover have "\<not> double_quoted (resource_string None 1 ''1:00:00'')
           (command_line None 1 ''1:00:00'' ''hostname'' None False)"
    by code_simp
  moreover have "\<not> single_quoted ''hostname''
           (command_line None 1 ''1:00:00'' ''hostname'' None False)"
    by code_simp
  ultimately show ?thesis using passes_unconstrained by (simp only: simp_thms)
qed

section \<open>Job creation: unknown clusters\<close>

lemma list_machines_trace:
  "snd (list_machines e tr) = tr @ [[''ssh'', CLUSTER_HOSTNAME e, ''oarnodes -l'']]"
  using run_ssh_command_trace[of e "''oarnodes -l''" tr]
  by (cases "run_ssh_command e ''oarnodes -l'' tr") (auto simp: list_machines_def split: sum.splits)

lemma list_clusters_trace:
  "snd (list_clusters e tr) = tr @ [[''ssh'', CLUSTER_HOSTNAME e, ''oarnodes -l'']]"
  using list_machines_trace[of e tr]
  by (cases "list_machines e tr") (auto simp: list_clusters_def split: sum.splits)

text \<open>
  C4, as amended. A request whose walltime matches and that names at least one cluster
  absent from the inventory the listing returns gets the message \<open>Invalid clusters:\<close>
  with the list of the names that are absent, in the order and as often as the request
  has them, and \<open>Available:\<close> with the whole inventory; the only remote call made is
  the inventory listing.
\<close>

theorem unknown_clusters_rejected:
  assumes "match_duration walltime"
      and "list_clusters e tr = (Inr available, tr1)"
      and "\<exists>c\<in>set cs. c \<notin> set available"
  shows "create_job e (Some cs) nodes walltime command name best_effort tr
           = (''Invalid clusters: '' @ repr_list (filter (\<lambda>c. c \<notin> set available) cs)
              @ ''. Available: '' @ repr_list available, tr1)
     \<and> set (filter (\<lambda>c. c \<notin> set available) cs) = set cs - set available
     \<and> tr1 = tr @ [[''ssh'', CLUSTER_HOSTNAME e, ''oarnodes -l'']]"
proof (intro conjI)
  from assms(3) have ne: "cs \<noteq> []" by auto
  from assms(3) have inv: "filter (\<lambda>c. c \<notin> set available) cs \<noteq> []"
    by (simp add: filter_empty_conv)
  from assms(1,2) ne inv
  show "create_job e (Some cs) nodes walltime command name best_effort tr
           = (''Invalid clusters: '' @ repr_list (filter (\<lambda>c. c \<notin> set available) cs)
              @ ''. Available: '' @ repr_list available, tr1)"
    by (simp add: create_job_def)
  show "set (filter (\<lambda>c. c \<notin> set available) cs) = set cs - set available"
    by auto
  from list_clusters_trace[of e tr] assms(2)
  show "tr1 = tr @ [[''ssh'', CLUSTER_HOSTNAME e, ''oarnodes -l'']]" by simp
qed

lemma match_2_00_00: "match_duration ''2:00:00''"
  by code_simp

lemma repr_unknown: "repr_list [''zzz'', ''eevee''] = ''['' @ [sq] @ ''zzz'' @ [sq] @ '', ''
    @ [sq] @ ''eevee'' @ [sq] @ '']''"
  by code_simp

lemma repr_inventory: "repr_list [''alakazam'', ''bulbasaur''] = ''['' @ [sq] @ ''alakazam'' @ [sq]
    @ '', '' @ [sq] @ ''bulbasaur'' @ [sq] @ '']''"
  by code_simp

theorem unknown_clusters_rejected_witness:
  "match_duration ''2:00:00''
   \<and> list_clusters inventory_env [] = (Inr [''alakazam'', ''bulbasaur''], inventory_trace)
   \<and> create_job inventory_env (Some [''zzz'', ''alakazam'', ''eevee'']) 1 ''2:00:00''
        ''sleep 365d'' None False []
      = (''Invalid clusters: ['' @ [sq] @ ''zzz'' @ [sq] @ '', '' @ [sq] @ ''eevee'' @ [sq]
         @ '']. Available: ['' @ [sq] @ ''alakazam'' @ [sq] @ '', '' @ [sq] @ ''bulbasaur''
         @ [sq] @ '']'', [[''ssh'', ''cluster'', ''oarnodes -l'']])"
proof -
  have 3: "\<exists>c\<in>set [''zzz'', ''alakazam'', ''eevee'']. c \<notin> set [''alakazam'', ''bulbasaur'']"
    by simp
  have f: "filter (\<lambda>c. c \<notin> set [''alakazam'', ''bulbasaur'']) [''zzz'', ''alakazam'', ''eevee'']
             = [''zzz'', ''eevee'']"
    by simp
  from unknown_clusters_rejected[OF match_2_00_00 list_clusters_inventory 3,
         of 1 "''sleep 365d''" None False]
  show ?thesis
    unfolding f repr_unknown repr_inventory
    using match_2_00_00 list_clusters_inventory by (simp add: inventory_trace_def)
qed

text \<open>
  C4 as stated fails for a request whose walltime does not match: the walltime is checked
  first, and its message names no cluster.
\<close>

theorem unknown_cluster_invalid_walltime_counterexample:
  "''zzz'' \<notin> set [''alakazam'', ''bulbasaur'']
   \<and> list_clusters inventory_env [] = (Inr [''alakazam'', ''bulbasaur''], inventory_trace)
   \<and> create_job inventory_env (Some [''zzz'']) 1 ''25:00'' ''sleep 365d'' None False []
       = (invalid_walltime_message, [])
   \<and> \<not> sublist ''zzz'' invalid_walltime_message"
proof -
  have "\<not> match_duration ''25:00''" by code_simp
  then have "create_job inventory_env (Some [''zzz'']) 1 ''25:00'' ''sleep 365d'' None False []
       = (invalid_walltime_message, [])"
    by (rule create_job_rejects)
  moreover have "\<not> sublist ''zzz'' invalid_walltime_message" by code_simp
  ultimately show ?thesis using list_clusters_inventory by simp
qed

section \<open>Job creation: the job identifier\<close>

lemma token_at_head:
  "(prefix job_id_literal s \<and> takeWhile is_digit (drop (length job_id_literal) s) \<noteq> [])
     = (\<exists>d post. s = job_id_literal @ d # post \<and> is_digit d)"
proof
  assume a: "prefix job_id_literal s \<and> takeWhile is_digit (drop (length job_id_literal) s) \<noteq> []"
  let ?r = "drop (length job_id_literal) s"
  from a obtain r where s: "s = job_id_literal @ r" by (auto simp: prefix_def)
  then have r: "?r = r" by simp
  from a have "?r \<noteq> []" by auto
  with r obtain d post where dp: "r = d # post" by (cases r) auto
  from a r dp have "is_digit d" by (auto split: if_splits)
  with s dp show "\<exists>d post. s = job_id_literal @ d # post \<and> is_digit d" by blast
next
  assume "\<exists>d post. s = job_id_literal @ d # post \<and> is_digit d"
  then obtain d post where "s = job_id_literal @ d # post" "is_digit d" by blast
  then show "prefix job_id_literal s \<and> takeWhile is_digit (drop (length job_id_literal) s) \<noteq> []"
    by simp
qed

lemma has_job_token_Cons:
  "has_job_token (c # cs)
     = ((\<exists>d post. c # cs = job_id_literal @ d # post \<and> is_digit d) \<or> has_job_token cs)"
proof
  assume "has_job_token (c # cs)"
  then obtain pre d post where t: "c # cs = pre @ job_id_literal @ d # post" "is_digit d"
    unfolding has_job_token_def by blast
  show "(\<exists>d post. c # cs = job_id_literal @ d # post \<and> is_digit d) \<or> has_job_token cs"
  proof (cases pre)
    case Nil
    with t show ?thesis by auto
  next
    case (Cons p pre')
    with t have "cs = pre' @ job_id_literal @ d # post" by simp
    with t(2) have "has_job_token cs" unfolding has_job_token_def by blast
    then show ?thesis ..
  qed
next
  assume "(\<exists>d post. c # cs = job_id_literal @ d # post \<and> is_digit d) \<or> has_job_token cs"
  then show "has_job_token (c # cs)"
  proof
    assume "\<exists>d post. c # cs = job_id_literal @ d # post \<and> is_digit d"
    then obtain d post where "c # cs = [] @ job_id_literal @ d # post" "is_digit d" by auto
    then show ?thesis unfolding has_job_token_def by blast
  next
    assume "has_job_token cs"
    then obtain pre d post where "cs = pre @ job_id_literal @ d # post" "is_digit d"
      unfolding has_job_token_def by blast
    then have "c # cs = (c # pre) @ job_id_literal @ d # post" by simp
    with \<open>is_digit d\<close> show ?thesis unfolding has_job_token_def by blast
  qed
qed

lemma no_token_in_short: "length s \<le> length job_id_literal \<Longrightarrow> \<not> has_job_token s"
  by (auto simp: has_job_token_def)

lemma search_job_id_None: "search_job_id s = None \<Longrightarrow> \<not> has_job_token s"
proof (induction s)
  case Nil
  show ?case by (rule no_token_in_short) simp
next
  case (Cons c cs)
  from Cons.prems have
    h: "\<not> (prefix job_id_literal (c # cs)
          \<and> takeWhile is_digit (drop (length job_id_literal) (c # cs)) \<noteq> [])"
    and t: "search_job_id cs = None"
    by (auto simp: Let_def split: if_splits)
  from h have "\<not> (\<exists>d post. c # cs = job_id_literal @ d # post \<and> is_digit d)"
    unfolding token_at_head .
  moreover from Cons.IH[OF t] have "\<not> has_job_token cs" .
  ultimately show ?case by (simp only: has_job_token_Cons simp_thms)
qed

lemma search_job_id_Some:
  "search_job_id s = Some ds \<Longrightarrow>
     \<exists>pre post. s = pre @ job_id_literal @ ds @ post \<and> ds \<noteq> [] \<and> list_all is_digit ds
       \<and> (post = [] \<or> \<not> is_digit (hd post)) \<and> \<not> has_job_token (pre @ job_id_literal)"
proof (induction s)
  case Nil
  then show ?case by simp
next
  case (Cons c cs)
  let ?s = "c # cs"
  let ?r = "drop (length job_id_literal) ?s"
  show ?case
  proof (cases "prefix job_id_literal ?s \<and> takeWhile is_digit ?r \<noteq> []")
    case True
    with Cons.prems have ds: "ds = takeWhile is_digit ?r" by (simp add: Let_def)
    from True have s: "?s = job_id_literal @ ?r" by (auto simp: prefix_def)
    have "?r = ds @ dropWhile is_digit ?r" unfolding ds by simp
    with s have 1: "?s = [] @ job_id_literal @ ds @ dropWhile is_digit ?r" by simp
    have 2: "ds \<noteq> []" using True ds by simp
    have 3: "list_all is_digit ds" unfolding ds list_all_iff by (auto dest: set_takeWhileD)
    have 4: "dropWhile is_digit ?r = [] \<or> \<not> is_digit (hd (dropWhile is_digit ?r))"
      using hd_dropWhile[of is_digit ?r] by blast
    have 5: "\<not> has_job_token ([] @ job_id_literal)" by (rule no_token_in_short) simp
    from 1 2 3 4 5 show ?thesis
      by (intro exI[of _ "[]"] exI[of _ "dropWhile is_digit ?r"] conjI)
  next
    case False
    with Cons.prems have "search_job_id cs = Some ds" by (auto simp: Let_def split: if_splits)
    from Cons.IH[OF this] obtain pre post where
      p: "cs = pre @ job_id_literal @ ds @ post" "ds \<noteq> []" "list_all is_digit ds"
         "post = [] \<or> \<not> is_digit (hd post)" "\<not> has_job_token (pre @ job_id_literal)"
      by blast
    have 1: "?s = (c # pre) @ job_id_literal @ ds @ post" using p(1) by simp
    have 5: "\<not> has_job_token ((c # pre) @ job_id_literal)"
    proof
      assume "has_job_token ((c # pre) @ job_id_literal)"
      then have "(\<exists>d q. c # pre @ job_id_literal = job_id_literal @ d # q \<and> is_digit d)
          \<or> has_job_token (pre @ job_id_literal)"
        by (simp add: has_job_token_Cons)
      with p(5) obtain d q where dq: "c # pre @ job_id_literal = job_id_literal @ d # q" "is_digit d"
        by blast
      have "?s = (c # pre @ job_id_literal) @ ds @ post" using p(1) by simp
      also have "\<dots> = job_id_literal @ d # (q @ ds @ post)" unfolding dq(1) by simp
      finally have "\<exists>d post. ?s = job_id_literal @ d # post \<and> is_digit d" using dq(2) by blast
      then have "prefix job_id_literal ?s \<and> takeWhile is_digit ?r \<noteq> []"
        unfolding token_at_head .
      with False show False by contradiction
    qed
    from 1 p(2,3,4) 5 show ?thesis
      by (intro exI[of _ "c # pre"] exI[of _ post] conjI)
  qed
qed

lemma search_job_id_iff: "has_job_token s = (search_job_id s \<noteq> None)"
proof
  assume "has_job_token s"
  then show "search_job_id s \<noteq> None" using search_job_id_None by blast
next
  assume "search_job_id s \<noteq> None"
  then obtain ds where "search_job_id s = Some ds" by auto
  from search_job_id_Some[OF this] obtain pre post where
    p: "s = pre @ job_id_literal @ ds @ post" "ds \<noteq> []" "list_all is_digit ds" by blast
  from p(2) obtain d ds' where d: "ds = d # ds'" by (cases ds) auto
  with p(3) have "is_digit d" by simp
  moreover from p(1) d have "s = pre @ job_id_literal @ d # (ds' @ post)" by simp
  ultimately show "has_job_token s" unfolding has_job_token_def by blast
qed


lemma job_result_cases:
  "(has_job_token output \<longrightarrow>
      (\<exists>pre ds post. output = pre @ job_id_literal @ ds @ post \<and> ds \<noteq> []
         \<and> list_all is_digit ds \<and> (post = [] \<or> \<not> is_digit (hd post))
         \<and> \<not> has_job_token (pre @ job_id_literal)
         \<and> job_result output
             = ''Job created successfully with ID: '' @ ds @ [newline] @ ''Output: '' @ output))
   \<and> (\<not> has_job_token output \<longrightarrow> job_result output = ''Job submission completed: '' @ output)"
proof (cases "search_job_id output")
  case None
  then have "\<not> has_job_token output" by (simp add: search_job_id_iff)
  with None show ?thesis by (simp add: job_result_def)
next
  case (Some ds)
  then have t: "has_job_token output" by (simp add: search_job_id_iff)
  from search_job_id_Some[OF Some] obtain pre post where
    p: "output = pre @ job_id_literal @ ds @ post" "ds \<noteq> []" "list_all is_digit ds"
       "post = [] \<or> \<not> is_digit (hd post)" "\<not> has_job_token (pre @ job_id_literal)"
    by blast
  have r: "job_result output
     = ''Job created successfully with ID: '' @ ds @ [newline] @ ''Output: '' @ output"
    using Some by (simp add: job_result_def)
  have "\<exists>pre ds post. output = pre @ job_id_literal @ ds @ post \<and> ds \<noteq> []
         \<and> list_all is_digit ds \<and> (post = [] \<or> \<not> is_digit (hd post))
         \<and> \<not> has_job_token (pre @ job_id_literal)
         \<and> job_result output
             = ''Job created successfully with ID: '' @ ds @ [newline] @ ''Output: '' @ output"
    using p r by (intro exI[of _ pre] exI[of _ ds] exI[of _ post] conjI)
  with t show ?thesis by (simp only: simp_thms)
qed

text \<open>
  C7. When a request passes validation and the submission command returns an output, job
  creation looks for \<open>OAR_JOB_ID=\<close> followed by a digit. If there is one, the answer
  reports the digits that follow its first occurrence, all of them, and the output; if
  there is none, the answer is the output behind \<open>Job submission completed:\<close>, which
  is not an error message.
\<close>

theorem job_id_extraction:
  assumes "passes_validation e clusters walltime tr tr1"
      and "run_ssh_command e (command_line clusters nodes walltime command name best_effort) tr1
             = (Inr output, tr2)"
  shows "(has_job_token output \<longrightarrow>
      (\<exists>pre ds post. output = pre @ job_id_literal @ ds @ post \<and> ds \<noteq> []
         \<and> list_all is_digit ds \<and> (post = [] \<or> \<not> is_digit (hd post))
         \<and> \<not> has_job_token (pre @ job_id_literal)
         \<and> create_job e clusters nodes walltime command name best_effort tr
             = (''Job created successfully with ID: '' @ ds @ [newline] @ ''Output: '' @ output,
                tr2)))
   \<and> (\<not> has_job_token output \<longrightarrow>
        create_job e clusters nodes walltime command name best_effort tr
          = (''Job submission completed: '' @ output, tr2))"
proof -
  have "create_job e clusters nodes walltime command name best_effort tr
          = (job_result output, tr2)"
    using assms(2) by (simp add: create_job_submits[OF assms(1)] submit_def)
  then show ?thesis using job_result_cases[of "output"] by simp
qed

lemma command_line_default:
  "command_line None 1 ''1:00:00'' ''sleep 365d'' None False
     = ''oarsub -l nodes=1,walltime=1:00:00 '' @ [sq] @ ''sleep 365d'' @ [sq]"
  by code_simp

lemma passes_inventory_unconstrained: "passes_validation inventory_env None ''1:00:00'' [] []"
  using match_1_00_00 by (simp add: passes_validation_def)

lemma run_inventory_submission:
  "run_ssh_command inventory_env (command_line None 1 ''1:00:00'' ''sleep 365d'' None False) []
     = (Inr ''OAR_JOB_ID=1234'',
        [[''ssh'', ''cluster'', command_line None 1 ''1:00:00'' ''sleep 365d'' None False]])"
  by (simp add: run_ssh_command_def subprocess_run_def inventory_env_def strip_job_stdout
                command_line_default)

lemma strip_quiet_stdout: "strip quiet_stdout = ''Generate a job key...''"
  by (simp add: quiet_stdout_def strip_def isspace_def)

lemma run_quiet_submission:
  "run_ssh_command quiet_env (command_line None 1 ''1:00:00'' ''sleep 365d'' None False) []
     = (Inr ''Generate a job key...'',
        [[''ssh'', ''cluster'', command_line None 1 ''1:00:00'' ''sleep 365d'' None False]])"
  by (simp add: run_ssh_command_def subprocess_run_def quiet_env_def strip_quiet_stdout)

lemma token_in_job_output: "has_job_token ''OAR_JOB_ID=1234''"
proof -
  have "search_job_id ''OAR_JOB_ID=1234'' = Some ''1234''" by code_simp
  then show ?thesis by (simp add: search_job_id_iff)
qed

lemma no_token_in_quiet_output: "\<not> has_job_token ''Generate a job key...''"
proof -
  have "search_job_id ''Generate a job key...'' = None" by code_simp
  then show ?thesis by (simp add: search_job_id_iff)
qed

theorem job_id_extraction_witness:
  "passes_validation inventory_env None ''1:00:00'' [] []
   \<and> has_job_token ''OAR_JOB_ID=1234''
   \<and> (\<exists>ds. ds \<noteq> [] \<and> list_all is_digit ds
        \<and> create_job inventory_env None 1 ''1:00:00'' ''sleep 365d'' None False []
            = (''Job created successfully with ID: '' @ ds @ [newline]
               @ ''Output: OAR_JOB_ID=1234'',
               [[''ssh'', ''cluster'', command_line None 1 ''1:00:00'' ''sleep 365d'' None False]]))
   \<and> passes_validation quiet_env None ''1:00:00'' [] []
   \<and> \<not> has_job_token ''Generate a job key...''
   \<and> create_job quiet_env None 1 ''1:00:00'' ''sleep 365d'' None False []
       = (''Job submission completed: Generate a job key...'',
          [[''ssh'', ''cluster'', command_line None 1 ''1:00:00'' ''sleep 365d'' None False]])"
proof -
  note 1 = job_id_extraction[OF passes_inventory_unconstrained run_inventory_submission]
  from 1 have "has_job_token ''OAR_JOB_ID=1234'' \<longrightarrow>
      (\<exists>pre ds post. ''OAR_JOB_ID=1234'' = pre @ job_id_literal @ ds @ post \<and> ds \<noteq> []
         \<and> list_all is_digit ds \<and> (post = [] \<or> \<not> is_digit (hd post))
         \<and> \<not> has_job_token (pre @ job_id_literal)
         \<and> create_job inventory_env None 1 ''1:00:00'' ''sleep 365d'' None False []
             = (''Job created successfully with ID: '' @ ds @ [newline] @ ''Output: ''
                  @ ''OAR_JOB_ID=1234'',
                [[''ssh'', ''cluster'',
                  command_line None 1 ''1:00:00'' ''sleep 365d'' None False]]))"
    by (rule conjunct1)
  from this token_in_job_output obtain pre ds post where
    d: "ds \<noteq> []" "list_all is_digit ds"
    "create_job inventory_env None 1 ''1:00:00'' ''sleep 365d'' None False []
       = (''Job created successfully with ID: '' @ ds @ [newline] @ ''Output: ''
            @ ''OAR_JOB_ID=1234'',
          [[''ssh'', ''cluster'', command_line None 1 ''1:00:00'' ''sleep 365d'' None False]])"
    by (elim impE exE conjE)
  have a: "\<exists>ds. ds \<noteq> [] \<and> list_all is_digit ds
        \<and> create_job inventory_env None 1 ''1:00:00'' ''sleep 365d'' None False []
            = (''Job created successfully with ID: '' @ ds @ [newline]
               @ ''Output: OAR_JOB_ID=1234'',
               [[''ssh'', ''cluster'', command_line None 1 ''1:00:00'' ''sleep 365d'' None False]])"
    using d by (intro exI[of _ ds]) simp
  note 2 = job_id_extraction[OF passes_unconstrained run_quiet_submission]
  from 2 have "\<not> has_job_token ''Generate a job key...'' \<longrightarrow>
        create_job quiet_env None 1 ''1:00:00'' ''sleep 365d'' None False []
          = (''Job submission completed: '' @ ''Generate a job key...'',
             [[''ssh'', ''cluster'', command_line None 1 ''1:00:00'' ''sleep 365d'' None False]])"
    by (rule conjunct2)
  from this no_token_in_quiet_output
  have "create_job quiet_env None 1 ''1:00:00'' ''sleep 365d'' None False []
          = (''Job submission completed: '' @ ''Generate a job key...'',
             [[''ssh'', ''cluster'', command_line None 1 ''1:00:00'' ''sleep 365d'' None False]])"
    by (rule mp)
  then have b: "create_job quiet_env None 1 ''1:00:00'' ''sleep 365d'' None False []
       = (''Job submission completed: Generate a job key...'',
          [[''ssh'', ''cluster'', command_line None 1 ''1:00:00'' ''sleep 365d'' None False]])"
    by simp
  from a b passes_inventory_unconstrained passes_unconstrained token_in_job_output
       no_token_in_quiet_output
  show ?thesis by (simp only: simp_thms)
qed

section \<open>Duration validation\<close>

lemma extend_walltime_rejects:
  "\<not> match_duration additional_time \<Longrightarrow>
     extend_walltime e job_id additional_time force tr = (invalid_time_message, tr)"
  by (simp add: extend_walltime_def)

text \<open>
  C3 does not hold of the code. The string \<open>1:00:00\<close> followed by a newline is not in
  the duration grammar, yet the pattern matches it, because \<open>$\<close> also matches before a
  final newline; walltime extension and job creation both go on to the remote call, with
  the newline inside the command line.
\<close>

theorem trailing_newline_accepted:
  "\<not> duration_grammar (''1:00:00'' @ [newline])
   \<and> match_duration (''1:00:00'' @ [newline])
   \<and> snd (extend_walltime quiet_env 5 (''1:00:00'' @ [newline]) False [])
       = [[''ssh'', ''cluster'', ''oarwalltime 5 +1:00:00'' @ [newline]]]
   \<and> snd (create_job quiet_env None 1 (''1:00:00'' @ [newline]) ''sleep 365d'' None False [])
       = [[''ssh'', ''cluster'', ''oarsub -l nodes=1,walltime=1:00:00'' @ [newline] @ '' ''
            @ [sq] @ ''sleep 365d'' @ [sq]]]"
proof (intro conjI)
  show "\<not> duration_grammar (''1:00:00'' @ [newline])" by code_simp
  show "match_duration (''1:00:00'' @ [newline])" by code_simp
  show "snd (extend_walltime quiet_env 5 (''1:00:00'' @ [newline]) False [])
       = [[''ssh'', ''cluster'', ''oarwalltime 5 +1:00:00'' @ [newline]]]"
    by code_simp
  show "snd (create_job quiet_env None 1 (''1:00:00'' @ [newline]) ''sleep 365d'' None False [])
       = [[''ssh'', ''cluster'', ''oarsub -l nodes=1,walltime=1:00:00'' @ [newline] @ '' ''
            @ [sq] @ ''sleep 365d'' @ [sq]]]"
    by code_simp
qed

section \<open>Execution failures at the operation boundary\<close>

text \<open>
  The job operations turn a failure of the executor into their answer: deletion, for
  one, whatever the environment does.
\<close>

lemma delete_job_failure:
  "fst (run_ssh_command e (''oardel '' @ str_int job_id) tr) = Inl (ValueError m) \<Longrightarrow>
     fst (delete_job e job_id tr) = ''Failed to delete job '' @ str_int job_id @ '': '' @ m"
  by (cases "run_ssh_command e (''oardel '' @ str_int job_id) tr")
     (simp add: delete_job_def)

text \<open>
  C5 does not hold of the code. The three inventory operations call the executor outside
  any handler: when the remote command exits with status 1 the \<open>ValueError\<close> leaves
  \<open>list_machines\<close>, \<open>list_machines_detailed\<close> and \<open>list_clusters\<close>, while
  \<open>delete_job\<close> in the same environment returns a failure message.
\<close>

theorem inventory_operations_raise:
  "fst (list_machines failing_env []) = Inl (ValueError ''Command failed: boom'')
   \<and> fst (list_machines_detailed rejecting_loads failing_env [])
       = Inl (ValueError ''Command failed: boom'')
   \<and> fst (list_clusters failing_env []) = Inl (ValueError ''Command failed: boom'')
   \<and> delete_job failing_env 7 []
       = (''Failed to delete job 7: Command failed: boom'', [[''ssh'', ''cluster'', ''oardel 7'']])"
proof (intro conjI)
  show "fst (list_machines failing_env []) = Inl (ValueError ''Command failed: boom'')"
    by code_simp
  show "fst (list_machines_detailed rejecting_loads failing_env [])
       = Inl (ValueError ''Command failed: boom'')"
    by code_simp
  show "fst (list_clusters failing_env []) = Inl (ValueError ''Command failed: boom'')"
    by code_simp
  show "delete_job failing_env 7 []
       = (''Failed to delete job 7: Command failed: boom'', [[''ssh'', ''cluster'', ''oardel 7'']])"
    by code_simp
qed

section \<open>Structured queries: output that is not JSON\<close>

lemma degraded_parse_error_fields: "degraded_result msg raw (parse_error_fields msg raw)"
  unfolding degraded_result_def parse_error_fields_def
  by (simp only: response.case list_ex_Nil_iff list_ex_Cons_iff snd_conv dval.case sublist_append_leftI simp_thms)

text \<open>
  C9, as amended. When the output of the structured query does not parse, the detailed
  machine listing, the job status and the all-jobs listing return the two fields
  \<open>error\<close>, holding the parse error behind \<open>Failed to parse JSON output:\<close>, and
  \<open>raw_output\<close>, holding the output as the executor returned it. The current-user
  listing then runs the plain listing again: if that fails it returns the same two fields
  with its own prefix; if that succeeds it returns a fixed message and the plain listing,
  and neither the parse error nor the output that did not parse.
\<close>

theorem parse_failure_results:
  assumes "loads raw = Inl msg"
  shows "(run_ssh_command e ''oarnodes -J'' tr = (Inr raw, tr') \<longrightarrow>
            list_machines_detailed loads e tr
              = (Inr (Fields [(''error'', Str (''Failed to parse JSON output: '' @ msg)),
                              (''raw_output'', Str raw)]), tr'))
     \<and> (run_ssh_command e (''oarstat -j '' @ str_int job_id @ '' -J'') tr = (Inr raw, tr') \<longrightarrow>
            get_job_status loads e job_id tr
              = (Fields [(''error'', Str (''Failed to parse JSON output: '' @ msg)),
                         (''raw_output'', Str raw)], tr'))
     \<and> (run_ssh_command e ''oarstat -J'' tr = (Inr raw, tr') \<longrightarrow>
            list_all_jobs loads e tr
              = (Fields [(''error'', Str (''Failed to parse JSON output: '' @ msg)),
                         (''raw_output'', Str raw)], tr'))
     \<and> degraded_result msg raw
          (Fields [(''error'', Str (''Failed to parse JSON output: '' @ msg)),
                   (''raw_output'', Str raw)])
     \<and> (run_ssh_command e ''oarstat -u'' tr = (Inr probe, tra) \<and> strip probe \<noteq> []
          \<and> run_ssh_command e ''oarstat -u -J'' tra = (Inr raw, trb) \<longrightarrow>
          (run_ssh_command e ''oarstat -u'' trb = (Inl x, trc) \<longrightarrow>
             list_my_jobs loads e tr
               = (Fields [(''error'',
                           Str (''Failed to parse JSON output and fallback failed: '' @ msg)),
                          (''raw_output'', Str raw)], trc))
          \<and> (run_ssh_command e ''oarstat -u'' trb = (Inr regular_output, trc) \<longrightarrow>
             list_my_jobs loads e tr
               = (Fields [(''message'',
                           Str ''Jobs for current user (text format due to JSON parsing error)''),
                          (''output'', Str regular_output)], trc)))"
proof (intro conjI impI)
  show "degraded_result msg raw
          (Fields [(''error'', Str (''Failed to parse JSON output: '' @ msg)),
                   (''raw_output'', Str raw)])"
    using degraded_parse_error_fields[of msg "raw"] by (simp only: parse_error_fields_def)
qed (simp_all add: assms list_machines_detailed_def get_job_status_def list_all_jobs_def
       list_my_jobs_def parse_error_fields_def)

lemma rejecting: "rejecting_loads ''not json'' = Inl ''Expecting value: line 1 column 1 (char 0)''"
  by (simp add: rejecting_loads_def)

lemma run_jobs_env_other:
  "command \<noteq> ''oarstat -u'' \<Longrightarrow>
     run_ssh_command jobs_env command tr
       = (Inr ''not json'', tr @ [[''ssh'', ''cluster'', command]])"
  by (simp add: run_ssh_command_def subprocess_run_def jobs_env_def strip_def isspace_def)

lemma run_jobs_env_probe:
  "run_ssh_command jobs_env ''oarstat -u'' tr
       = (Inr ''7 alice'', tr @ [[''ssh'', ''cluster'', ''oarstat -u'']])"
  by (simp add: run_ssh_command_def subprocess_run_def jobs_env_def strip_def isspace_def)

lemma run_flaky_env_other:
  "command \<noteq> ''oarstat -u'' \<Longrightarrow>
     run_ssh_command flaky_env command tr
       = (Inr ''not json'', tr @ [[''ssh'', ''cluster'', command]])"
  by (simp add: run_ssh_command_def subprocess_run_def flaky_env_def strip_def isspace_def)

lemma run_flaky_env_probe:
  "run_ssh_command flaky_env ''oarstat -u'' []
       = (Inr ''7 alice'', [[''ssh'', ''cluster'', ''oarstat -u'']])"
  by (simp add: run_ssh_command_def subprocess_run_def flaky_env_def strip_def isspace_def)

lemma run_flaky_env_fallback:
  "tr \<noteq> [] \<Longrightarrow> run_ssh_command flaky_env ''oarstat -u'' tr
       = (Inl (ValueError ''Command failed: boom''), tr @ [[''ssh'', ''cluster'', ''oarstat -u'']])"
  by (simp add: run_ssh_command_def subprocess_run_def flaky_env_def strip_boom)


lemma str_int_7: "str_int 7 = ''7''"
  by code_simp

lemma strip_probe: "strip ''7 alice'' \<noteq> []"
  by (simp add: strip_def isspace_def)

theorem parse_failure_results_witness:
  "rejecting_loads ''not json'' = Inl ''Expecting value: line 1 column 1 (char 0)''
   \<and> list_machines_detailed rejecting_loads jobs_env []
      = (Inr (Fields [(''error'', Str (''Failed to parse JSON output: ''
                                      @ ''Expecting value: line 1 column 1 (char 0)'')),
                      (''raw_output'', Str ''not json'')]),
         [[''ssh'', ''cluster'', ''oarnodes -J'']])
   \<and> get_job_status rejecting_loads jobs_env 7 []
      = (Fields [(''error'', Str (''Failed to parse JSON output: ''
                                 @ ''Expecting value: line 1 column 1 (char 0)'')),
                 (''raw_output'', Str ''not json'')],
         [[''ssh'', ''cluster'', ''oarstat -j 7 -J'']])
   \<and> list_all_jobs rejecting_loads jobs_env []
      = (Fields [(''error'', Str (''Failed to parse JSON output: ''
                                 @ ''Expecting value: line 1 column 1 (char 0)'')),
                 (''raw_output'', Str ''not json'')],
         [[''ssh'', ''cluster'', ''oarstat -J'']])
   \<and> list_my_jobs rejecting_loads flaky_env []
      = (Fields [(''error'', Str (''Failed to parse JSON output and fallback failed: ''
                                 @ ''Expecting value: line 1 column 1 (char 0)'')),
                 (''raw_output'', Str ''not json'')],
         [[''ssh'', ''cluster'', ''oarstat -u''], [''ssh'', ''cluster'', ''oarstat -u -J''],
          [''ssh'', ''cluster'', ''oarstat -u'']])
   \<and> list_my_jobs rejecting_loads jobs_env []
      = (Fields [(''message'',
                  Str ''Jobs for current user (text format due to JSON parsing error)''),
                 (''output'', Str ''7 alice'')],
         [[''ssh'', ''cluster'', ''oarstat -u''], [''ssh'', ''cluster'', ''oarstat -u -J''],
          [''ssh'', ''cluster'', ''oarstat -u'']])"
  using parse_failure_results[where loads = rejecting_loads and raw = "''not json''"
          and msg = "''Expecting value: line 1 column 1 (char 0)''", OF rejecting,
          where e = jobs_env and tr = "[]" and job_id = 7
          and tr' = "[[''ssh'', ''cluster'', ''oarnodes -J'']]"
          and probe = "''7 alice''" and tra = "[[''ssh'', ''cluster'', ''oarstat -u'']]"
          and trb = "[[''ssh'', ''cluster'', ''oarstat -u''],
                      [''ssh'', ''cluster'', ''oarstat -u -J'']]"
          and regular_output = "''7 alice''"
          and x = "ValueError []"
          and trc = "[[''ssh'', ''cluster'', ''oarstat -u''],
                      [''ssh'', ''cluster'', ''oarstat -u -J''],
                      [''ssh'', ''cluster'', ''oarstat -u'']]"]
        parse_failure_results[where loads = rejecting_loads and raw = "''not json''"
          and msg = "''Expecting value: line 1 column 1 (char 0)''", OF rejecting,
          where e = jobs_env and tr = "[]" and job_id = 7
          and tr' = "[[''ssh'', ''cluster'', ''oarstat -j 7 -J'']]"
          and probe = "''7 alice''" and tra = "[[''ssh'', ''cluster'', ''oarstat -u'']]"
          and trb = "[[''ssh'', ''cluster'', ''oarstat -u''],
                      [''ssh'', ''cluster'', ''oarstat -u -J'']]"
          and regular_output = "''7 alice''"
          and x = "ValueError []"
          and trc = "[[''ssh'', ''cluster'', ''oarstat -u''],
                      [''ssh'', ''cluster'', ''oarstat -u -J''],
                      [''ssh'', ''cluster'', ''oarstat -u'']]"]
        parse_failure_results[where loads = rejecting_loads and raw = "''not json''"
          and msg = "''Expecting value: line 1 column 1 (char 0)''", OF rejecting,
          where e = jobs_env and tr = "[]" and job_id = 7
          and tr' = "[[''ssh'', ''cluster'', ''oarstat -J'']]"
          and probe = "''7 alice''" and tra = "[[''ssh'', ''cluster'', ''oarstat -u'']]"
          and trb = "[[''ssh'', ''cluster'', ''oarstat -u''],
                      [''ssh'', ''cluster'', ''oarstat -u -J'']]"
          and regular_output = "''7 alice''"
          and x = "ValueError []"
          and trc = "[[''ssh'', ''cluster'', ''oarstat -u''],
                      [''ssh'', ''cluster'', ''oarstat -u -J''],
                      [''ssh'', ''cluster'', ''oarstat -u'']]"]
        parse_failure_results[where loads = rejecting_loads and raw = "''not json''"
          and msg = "''Expecting value: line 1 column 1 (char 0)''", OF rejecting,
          where e = flaky_env and tr = "[]" and job_id = 7
          and tr' = "[[''ssh'', ''cluster'', ''oarstat -J'']]"
          and probe = "''7 alice''" and tra = "[[''ssh'', ''cluster'', ''oarstat -u'']]"
          and trb = "[[''ssh'', ''cluster'', ''oarstat -u''],
                      [''ssh'', ''cluster'', ''oarstat -u -J'']]"
          and regular_output = "''7 alice''"
          and x = "ValueError ''Command failed: boom''"
          and trc = "[[''ssh'', ''cluster'', ''oarstat -u''],
                      [''ssh'', ''cluster'', ''oarstat -u -J''],
                      [''ssh'', ''cluster'', ''oarstat -u'']]"]
  by (auto simp add: rejecting run_jobs_env_other run_jobs_env_probe run_flaky_env_other
                run_flaky_env_probe run_flaky_env_fallback str_int_7 strip_probe)

text \<open>
  C9 as stated fails for the current-user listing: when the plain listing can be run
  again, the answer has neither the parse error nor the text that did not parse.
\<close>

theorem list_my_jobs_fallback_counterexample:
  "rejecting_loads ''not json'' = Inl ''Expecting value: line 1 column 1 (char 0)''
   \<and> fst (list_my_jobs rejecting_loads jobs_env [])
       = Fields [(''message'',
                  Str ''Jobs for current user (text format due to JSON parsing error)''),
                 (''output'', Str ''7 alice'')]
   \<and> \<not> degraded_result ''Expecting value: line 1 column 1 (char 0)'' ''not json''
         (fst (list_my_jobs rejecting_loads jobs_env []))"
proof (intro conjI)
  show "rejecting_loads ''not json'' = Inl ''Expecting value: line 1 column 1 (char 0)''"
    by (rule rejecting)
  show "fst (list_my_jobs rejecting_loads jobs_env [])
       = Fields [(''message'',
                  Str ''Jobs for current user (text format due to JSON parsing error)''),
                 (''output'', Str ''7 alice'')]"
    by code_simp
  show "\<not> degraded_result ''Expecting value: line 1 column 1 (char 0)'' ''not json''
         (fst (list_my_jobs rejecting_loads jobs_env []))"
    by code_simp
qed

end
